theory Spec2Isabelle
  imports Complex_Main "HOL-Library.Char_ord" "HOL-Library.List_Lexorder" "HOL-Library.Option_ord"
begin

section \<open>Values\<close>

text \<open>
  Python \<open>int\<close> is unbounded: \<open>int\<close>. The \<open>DECIMAL\<close> columns of the schema and the
  \<open>float\<close> fields of the request models are both rationals here: the handlers copy and
  compare these numbers. What a \<open>DECIMAL(10, 2)\<close> column keeps of a number written to it
  is the store's (see \<open>decimal_10_2\<close> below). A \<open>DateTime\<close> is a count of
  microseconds, a date (what \<open>strptime(...).date()\<close> gives) a count of days.
\<close>

type_synonym decimal = rat
type_synonym py_float = rat
type_synonym datetime = int
type_synonym date = int

subsection \<open>Strings\<close>

text \<open>
  \<open>str.upper\<close>, \<open>str.lower\<close> and \<open>str.capitalize\<close> on the ASCII letters; every
  other character is left as it is. The strings of the model are ASCII texts: Python also
  maps a few characters outside ASCII to ASCII letters (\<open>upper\<close> takes the long s to
  \<open>S\<close> and the dotless i to \<open>I\<close>), and a string with such a character is not a
  string of the model.
\<close>

definition ascii_lowercase :: string where
  "ascii_lowercase = ''abcdefghijklmnopqrstuvwxyz''"

definition ascii_uppercase :: string where
  "ascii_uppercase = ''ABCDEFGHIJKLMNOPQRSTUVWXYZ''"

definition char_upper :: "char \<Rightarrow> char" where
  "char_upper c =
     (case map_of (zip ascii_lowercase ascii_uppercase) c of Some u \<Rightarrow> u | None \<Rightarrow> c)"

definition char_lower :: "char \<Rightarrow> char" where
  "char_lower c =
     (case map_of (zip ascii_uppercase ascii_lowercase) c of Some l \<Rightarrow> l | None \<Rightarrow> c)"

definition upper :: "string \<Rightarrow> string" where
  "upper s = map char_upper s"

definition lower :: "string \<Rightarrow> string" where
  "lower s = map char_lower s"

fun capitalize :: "string \<Rightarrow> string" where
  "capitalize [] = []"
| "capitalize (c # cs) = char_upper c # lower cs"

subsection \<open>Errors\<close>

text \<open>
  The \<open>detail\<close> of an \<open>HTTPException\<close>. Most messages of the source are fixed texts in
  Thai; each is a constructor here, with the values the f-string interpolates as its
  arguments. \<open>MovementTypeInvalid\<close> carries the allowed types it lists: the source joins a
  Python set, whose order is not fixed.
\<close>

datatype detail =
    CategoriesNotFound
  | CategoryIdNotFound int
  | SkuExists string
  | ProductsNotFound
  | PaymentMethodInvalid
  | ProductWithIDNotFound int
  | DateFormatInvalid
  | SalesNotFound
  | SaleNotFound
  | SaleItemProductNotFound int
  | ProductAlreadyInSale int
  | StockInProductNotFound int
  | StockInsNotFound
  | MovementTypeInvalid "string set"
  | StartDateFormatInvalid
  | EndDateFormatInvalid
  | MovementsNotFound
  | MovementIdNotFound int
  | StockDataNotFound
  | ProfitabilityNotFound

text \<open>
  What a call can end in: an \<open>HTTPException\<close> with its status code, a Python exception
  that the framework turns into a server error, or \<open>RequestValidationError\<close>, with which
  the framework answers (status 422) a body that its request model does not accept.
\<close>

datatype error =
    HTTPException int detail
  | ValidationError
  | TypeError
  | ZeroDivisionError
  | RequestValidationError

section \<open>The schema\<close>

record CategoryDB =
  category_id :: int
  name :: string

record ProductDB =
  product_id :: int
  name :: string
  category_id :: "int option"
  sku :: "string option"
  price :: decimal
  reorder_level :: int

record SaleDB =
  sale_id :: int
  sale_datetime :: datetime
  total_amount :: decimal
  payment_method :: string
  "notes" :: "string option"

record SaleItemDB =
  sale_item_id :: int
  sale_id :: int
  product_id :: int
  quantity :: int
  unit_price :: decimal
  discount :: decimal

record StockInDB =
  stock_in_id :: int
  ref_no :: "string option"
  stock_in_date :: datetime
  total_cost :: decimal
  "notes" :: "string option"

record StockInItemDB =
  stock_in_item_id :: int
  stock_in_id :: int
  product_id :: int
  quantity :: int
  unit_cost :: decimal

record InventoryMovementDB =
  movement_id :: int
  product_id :: int
  movement_type :: string
  quantity :: int
  unit_cost :: "decimal option"
  sale_price :: "decimal option"
  sale_item_id :: "int option"
  stock_in_item_id :: "int option"
  movement_date :: datetime

record ProductStockView =
  product_id :: int
  name :: string
  price :: decimal
  reorder_level :: int
  stock_on_hand :: int
  needs_restock :: int

record ProfitabilityReportView =
  sale_item_id :: int
  sale_id :: int
  sale_datetime :: datetime
  product_id :: int
  product_name :: string
  quantity :: int
  unit_price :: decimal
  discount :: decimal
  total_revenue :: "decimal option"
  average_cost_at_sale :: "decimal option"
  total_cogs :: "decimal option"
  gross_profit :: "decimal option"

text \<open>
  The store: one list of rows for each table and view (\<open>__tablename__\<close>). The triggers
  that maintain \<open>total_amount\<close>, \<open>total_cost\<close> and the movement rows, and the queries
  behind the two views, belong to the store and are not part of this source: a table here
  holds the rows as the handlers write them, a view the rows the store shows.
\<close>

record database =
  category_table :: "CategoryDB list"
  product_table :: "ProductDB list"
  sale_table :: "SaleDB list"
  sale_item_table :: "SaleItemDB list"
  stock_in_table :: "StockInDB list"
  stock_in_item_table :: "StockInItemDB list"
  inventory_movement_table :: "InventoryMovementDB list"
  v_product_stock :: "ProductStockView list"
  v_profitability_report :: "ProfitabilityReportView list"

text \<open>
  What the source takes from its libraries, the store and the clock: the store's \<open>ILIKE\<close>
  (value, then pattern), \<open>datetime.strptime(s, "%Y-%m-%d")\<close> (\<open>None\<close> for its
  \<open>ValueError\<close>), \<open>current_timestamp\<close>, the column default of the two date columns, and
  \<open>decimal_10_2\<close>, the value a \<open>DECIMAL(10, 2)\<close> column holds, and gives back, for a number
  written to it: the number rounded to two decimals, in the way the store rounds.
\<close>

record externals =
  ilike :: "string \<Rightarrow> string \<Rightarrow> bool"
  strptime :: "string \<Rightarrow> date option"
  current_timestamp :: datetime
  decimal_10_2 :: "rat \<Rightarrow> decimal"

section \<open>The session\<close>

text \<open>
  \<open>get_db\<close> opens a session on the store for one request and closes it when the handler
  returns or raises. The session holds what the store has committed and the view of the
  open transaction; \<open>db.commit()\<close> makes the view the committed state, and closing the
  session drops whatever was not committed.
\<close>

record session =
  committed :: database
  pending :: database

definition db_commit :: "session \<Rightarrow> session" where
  "db_commit s = s\<lparr>committed := pending s\<rparr>"

definition get_db :: "(session \<Rightarrow> (error + 'a) \<times> session) \<Rightarrow> database \<Rightarrow> (error + 'a) \<times> database" where
  "get_db handler d =
     (case handler \<lparr>committed = d, pending = d\<rparr> of (r, s) \<Rightarrow> (r, committed s))"

text \<open>
  An \<open>autoincrement\<close> key: the model takes the successor of the largest key of the table.
\<close>

definition autoincrement :: "int list \<Rightarrow> int" where
  "autoincrement ids = fold max ids 0 + 1"

section \<open>Request and response models\<close>

text \<open>
  The classes of \<open>request_models.py\<close> and \<open>response_models.py\<close>. A field of type
  \<open>Optional[...]\<close> is an \<open>option\<close>; the search parameters extend \<open>PaginationParams\<close> as
  their classes do.
\<close>

record ProductCreate =
  name :: string
  category_id :: "int option"
  sku :: "string option"
  price :: py_float
  reorder_level :: int

text \<open>
  The body of a product creation as it arrives, where \<open>reorder_level\<close> may be left out, and
  the \<open>ProductCreate\<close> built from it: the class gives \<open>reorder_level\<close> the default 10 and
  puts no constraint on \<open>price\<close>.
\<close>

record ProductCreate_body =
  name :: string
  category_id :: "int option"
  sku :: "string option"
  price :: py_float
  reorder_level :: "int option"

definition ProductCreate_model :: "ProductCreate_body \<Rightarrow> ProductCreate" where
  "ProductCreate_model body =
     \<lparr>ProductCreate.name = ProductCreate_body.name body,
      ProductCreate.category_id = ProductCreate_body.category_id body,
      ProductCreate.sku = ProductCreate_body.sku body,
      ProductCreate.price = ProductCreate_body.price body,
      ProductCreate.reorder_level =
        (case ProductCreate_body.reorder_level body of None \<Rightarrow> 10 | Some r \<Rightarrow> r)\<rparr>"

record SaleItemCreate =
  product_id :: int
  quantity :: int
  unit_price :: "py_float option"
  discount :: py_float

record SaleCreate =
  sale_datetime :: "datetime option"
  payment_method :: string
  "notes" :: "string option"
  items :: "SaleItemCreate list"

record StockInItemCreate =
  product_id :: int
  quantity :: int
  unit_cost :: py_float

record StockInCreate =
  stock_in_date :: "datetime option"
  ref_no :: "string option"
  "notes" :: "string option"
  items :: "StockInItemCreate list"

text \<open>
  \<open>InventoryMovementUpdate\<close> declares \<open>movement_type: str = None\<close>: the field may be left
  out of the body, and then has the default \<open>None\<close>, but a value that is supplied must be
  a string. A body is accepted or refused before the handler runs; in the object the
  handler receives, \<open>movement_type\<close> is \<open>None\<close> only for a body that left the field out.
\<close>

record InventoryMovementUpdate =
  movement_type :: "string option"

datatype 'a body_field = Absent | Null | Supplied 'a

record InventoryMovementUpdate_body =
  movement_type :: "string body_field"

definition InventoryMovementUpdate_model ::
  "InventoryMovementUpdate_body \<Rightarrow> error + InventoryMovementUpdate" where
  "InventoryMovementUpdate_model body =
     (case InventoryMovementUpdate_body.movement_type body of
        Absent \<Rightarrow> Inr \<lparr>InventoryMovementUpdate.movement_type = None\<rparr>
      | Null \<Rightarrow> Inl RequestValidationError
      | Supplied t \<Rightarrow> Inr \<lparr>InventoryMovementUpdate.movement_type = Some t\<rparr>)"

record PaginationParams =
  page :: int
  limit :: int

record ProductSearchParams = PaginationParams +
  search :: "string option"
  category_id :: "int option"
  min_price :: "py_float option"
  max_price :: "py_float option"

record SaleSearchParams = PaginationParams +
  search :: "string option"
  payment_method :: "string option"
  start_date :: "string option"
  end_date :: "string option"

record StockInSearchParams = PaginationParams +
  search :: "string option"
  start_date :: "string option"
  end_date :: "string option"

record InventoryMovementSearchParams = PaginationParams +
  product_id :: "int option"
  movement_type :: "string option"
  start_date :: "string option"
  end_date :: "string option"

record ProductStockSearchParams = PaginationParams +
  search :: "string option"
  productFilter :: "string option"

record ProfitabilityReportSearchParams = PaginationParams +
  search :: "string option"
  product_id :: "int option"
  start_date :: "string option"
  end_date :: "string option"

record CategorySearchParams = PaginationParams +
  search :: "string option"

text \<open>
  The constraints \<open>PaginationParams\<close> declares: \<open>page\<close> with \<open>ge=1\<close>, \<open>limit\<close> with
  \<open>ge=1, le=100\<close>. The framework checks them before a handler runs.
\<close>

definition PaginationParams_valid :: "'a PaginationParams_scheme \<Rightarrow> bool" where
  "PaginationParams_valid p =
     (1 \<le> PaginationParams.page p \<and> 1 \<le> PaginationParams.limit p \<and> PaginationParams.limit p \<le> 100)"

record 'a PaginatedResponse =
  items :: "'a list"
  total :: int
  page :: int
  limit :: int
  total_pages :: int
  has_next :: bool
  has_prev :: bool

record MostProfitableProduct =
  name :: string
  total_profit :: py_float

record ProfitabilitySummary =
  total_sales :: int
  total_revenue :: py_float
  total_cogs :: py_float
  total_gross_profit :: py_float
  average_profit_margin :: py_float
  top_profitable_products :: "MostProfitableProduct list option"

section \<open>Queries\<close>

text \<open>
  The truth value Python gives an optional string or integer in \<open>if x:\<close>: \<open>None\<close>, the
  empty string and 0 are false. The result is the value when it is true.
\<close>

definition truthy_str :: "string option \<Rightarrow> string option" where
  "truthy_str v = (case v of None \<Rightarrow> None | Some s \<Rightarrow> if s = [] then None else Some s)"

definition truthy_int :: "int option \<Rightarrow> int option" where
  "truthy_int v = (case v of None \<Rightarrow> None | Some n \<Rightarrow> if n = 0 then None else Some n)"

text \<open>\<open>column.ilike(f"%{search}%")\<close>; a \<open>NULL\<close> column matches nothing.\<close>

definition search_term :: "string \<Rightarrow> string" where
  "search_term s = ''%'' @ s @ ''%''"

definition sql_ilike :: "externals \<Rightarrow> string option \<Rightarrow> string \<Rightarrow> bool" where
  "sql_ilike X col pat = (case col of None \<Rightarrow> False | Some v \<Rightarrow> ilike X v pat)"

text \<open>
  The list handlers below are models of their source for parameters inside the bounds of
  \<open>PaginationParams\<close>, the only ones the framework lets through: a limit of 0 would make
  the source divide by zero, and a page below 1 would give the store a negative offset.
\<close>

text \<open>
  \<open>.offset(n).limit(m).all()\<close> on the ordered rows. \<open>order_by\<close> is a stable sort on the
  key, reversed for \<open>.desc()\<close>; the order the store gives rows of equal key is its own.
\<close>

definition offset_limit :: "int \<Rightarrow> int \<Rightarrow> 'a list \<Rightarrow> 'a list" where
  "offset_limit start count rows = take (nat count) (drop (nat start) rows)"

definition order_by :: "('a \<Rightarrow> 'k::linorder) \<Rightarrow> 'a list \<Rightarrow> 'a list" where
  "order_by key rows = sort_key key rows"

definition order_by_desc :: "('a \<Rightarrow> 'k::linorder) \<Rightarrow> 'a list \<Rightarrow> 'a list" where
  "order_by_desc key rows = rev (sort_key key rows)"

text \<open>
  A date as the \<open>DateTime\<close> it is compared with: its midnight;
  \<open>datetime.combine(d, datetime.max.time())\<close>, the last microsecond of the day; and
  \<open>replace(hour=23, minute=59, second=59)\<close> on a midnight.
\<close>

definition midnight :: "date \<Rightarrow> datetime" where
  "midnight d = d * 86400000000"

definition combine_max_time :: "date \<Rightarrow> datetime" where
  "combine_max_time d = d * 86400000000 + 86399999999"

definition replace_235959 :: "date \<Rightarrow> datetime" where
  "replace_235959 d = d * 86400000000 + 86399000000"

text \<open>A step that may raise, then the rest of the handler on its result.\<close>

definition and_then :: "error + 'a \<Rightarrow> ('a \<Rightarrow> error + 'b) \<Rightarrow> error + 'b" where
  "and_then r f = (case r of Inl e \<Rightarrow> Inl e | Inr x \<Rightarrow> f x)"

text \<open>
  \<open>try: datetime.strptime(s, "%Y-%m-%d") ... except ValueError: raise HTTPException(...)\<close>
\<close>

definition parse_date :: "externals \<Rightarrow> string \<Rightarrow> error \<Rightarrow> error + date" where
  "parse_date X s e = (case strptime X s of None \<Rightarrow> Inl e | Some day \<Rightarrow> Inr day)"

section \<open>routers/categories.py\<close>

definition categories_query :: "externals \<Rightarrow> CategorySearchParams \<Rightarrow> database \<Rightarrow> CategoryDB list" where
  "categories_query X search_params d =
     (case truthy_str (CategorySearchParams.search search_params) of
        None \<Rightarrow> category_table d
      | Some s \<Rightarrow> filter (\<lambda>c. ilike X (CategoryDB.name c) (search_term s)) (category_table d))"

definition get_all_categories ::
  "externals \<Rightarrow> CategorySearchParams \<Rightarrow> database \<Rightarrow> error + CategoryDB PaginatedResponse" where
  "get_all_categories X search_params d =
     (let query = categories_query X search_params d;
          total' = int (length query);
          categories = offset_limit
            ((PaginationParams.page search_params - 1) * PaginationParams.limit search_params)
            (PaginationParams.limit search_params)
            (order_by CategoryDB.category_id query)
      in if categories = [] \<and> PaginationParams.page search_params = 1
         then Inl (HTTPException 404 CategoriesNotFound)
         else
           let total_pages' =
                 (total' + PaginationParams.limit search_params - 1) div PaginationParams.limit search_params
           in Inr \<lparr>items = categories,
                   total = total',
                   page = PaginationParams.page search_params,
                   limit = PaginationParams.limit search_params,
                   total_pages = total_pages',
                   has_next = (PaginationParams.page search_params < total_pages'),
                   has_prev = (PaginationParams.page search_params > 1)\<rparr>)"

section \<open>routers/products.py\<close>

definition db_add_product :: "ProductDB \<Rightarrow> session \<Rightarrow> session" where
  "db_add_product row s =
     s\<lparr>pending := (pending s)\<lparr>product_table := product_table (pending s) @ [row]\<rparr>\<rparr>"

definition create_product :: "ProductCreate \<Rightarrow> session \<Rightarrow> (error + ProductDB) \<times> session" where
  "create_product product s =
     (let category_error =
            (case ProductCreate.category_id product of
               None \<Rightarrow> None
             | Some c \<Rightarrow>
                 (case find (\<lambda>r. CategoryDB.category_id r = c) (category_table (pending s)) of
                    None \<Rightarrow> Some (HTTPException 400 (CategoryIdNotFound c))
                  | Some category \<Rightarrow> None));
          sku_error =
            (case truthy_str (ProductCreate.sku product) of
               None \<Rightarrow> None
             | Some k \<Rightarrow>
                 (case find (\<lambda>r. ProductDB.sku r = Some k) (product_table (pending s)) of
                    Some existing_product \<Rightarrow> Some (HTTPException 400 (SkuExists k))
                  | None \<Rightarrow> None))
      in case category_error of
           Some e \<Rightarrow> (Inl e, s)
         | None \<Rightarrow>
             (case sku_error of
                Some e \<Rightarrow> (Inl e, s)
              | None \<Rightarrow>
                  let new_product =
                        \<lparr>ProductDB.product_id =
                           autoincrement (map ProductDB.product_id (product_table (pending s))),
                         ProductDB.name = ProductCreate.name product,
                         ProductDB.category_id = ProductCreate.category_id product,
                         ProductDB.sku = ProductCreate.sku product,
                         ProductDB.price = ProductCreate.price product,
                         ProductDB.reorder_level = ProductCreate.reorder_level product\<rparr>
                  in (Inr new_product, db_commit (db_add_product new_product s))))"

text \<open>The endpoint: the body becomes a \<open>ProductCreate\<close>, the handler runs in a session.\<close>

definition post_products :: "ProductCreate_body \<Rightarrow> database \<Rightarrow> (error + ProductDB) \<times> database" where
  "post_products body d = get_db (create_product (ProductCreate_model body)) d"

definition products_query :: "externals \<Rightarrow> ProductSearchParams \<Rightarrow> database \<Rightarrow> ProductDB list" where
  "products_query X search_params d =
     (let q0 = product_table d;
          q1 = (case truthy_str (ProductSearchParams.search search_params) of
                  None \<Rightarrow> q0
                | Some s \<Rightarrow>
                    filter (\<lambda>r. ilike X (ProductDB.name r) (search_term s)
                                \<or> sql_ilike X (ProductDB.sku r) (search_term s)) q0);
          q2 = (case truthy_int (ProductSearchParams.category_id search_params) of
                  None \<Rightarrow> q1
                | Some c \<Rightarrow> filter (\<lambda>r. ProductDB.category_id r = Some c) q1);
          q3 = (case min_price search_params of
                  None \<Rightarrow> q2
                | Some lo \<Rightarrow> filter (\<lambda>r. lo \<le> ProductDB.price r) q2)
      in case max_price search_params of
           None \<Rightarrow> q3
         | Some hi \<Rightarrow> filter (\<lambda>r. ProductDB.price r \<le> hi) q3)"

definition get_all_products ::
  "externals \<Rightarrow> ProductSearchParams \<Rightarrow> database \<Rightarrow> error + ProductDB PaginatedResponse" where
  "get_all_products X search_params d =
     (let query = products_query X search_params d;
          total' = int (length query);
          products = offset_limit
            ((PaginationParams.page search_params - 1) * PaginationParams.limit search_params)
            (PaginationParams.limit search_params)
            (order_by ProductDB.product_id query)
      in if products = [] \<and> PaginationParams.page search_params = 1
         then Inl (HTTPException 404 ProductsNotFound)
         else
           let total_pages' =
                 (total' + PaginationParams.limit search_params - 1) div PaginationParams.limit search_params
           in Inr \<lparr>items = products,
                   total = total',
                   page = PaginationParams.page search_params,
                   limit = PaginationParams.limit search_params,
                   total_pages = total_pages',
                   has_next = (PaginationParams.page search_params < total_pages'),
                   has_prev = (PaginationParams.page search_params > 1)\<rparr>)"

section \<open>routers/sales.py\<close>

definition db_add_sale :: "SaleDB \<Rightarrow> session \<Rightarrow> session" where
  "db_add_sale row s =
     s\<lparr>pending := (pending s)\<lparr>sale_table := sale_table (pending s) @ [row]\<rparr>\<rparr>"

text \<open>
  A sale item as the table holds it: \<open>unit_price\<close> and \<open>discount\<close> are \<open>DECIMAL(10, 2)\<close>
  columns, and keep of the number the handler writes what such a column holds. The rows of
  the other tables are modelled with the numbers as their handlers write them.
\<close>

definition SaleItemDB_stored :: "externals \<Rightarrow> SaleItemDB \<Rightarrow> SaleItemDB" where
  "SaleItemDB_stored X row =
     row\<lparr>SaleItemDB.unit_price := decimal_10_2 X (SaleItemDB.unit_price row),
         SaleItemDB.discount := decimal_10_2 X (SaleItemDB.discount row)\<rparr>"

definition db_add_sale_item :: "externals \<Rightarrow> SaleItemDB \<Rightarrow> session \<Rightarrow> session" where
  "db_add_sale_item X row s =
     s\<lparr>pending := (pending s)\<lparr>sale_item_table :=
        sale_item_table (pending s) @ [SaleItemDB_stored X row]\<rparr>\<rparr>"

text \<open>
  The loop of \<open>create_sale\<close> over \<open>sale.items\<close>, for the sale with key \<open>new_sale_id\<close>: the
  product is fetched, a missing one raises 404 and leaves the loop, and the item is added
  with the price the request gave or, when it gave none, the product's.
\<close>

fun create_sale_items ::
  "externals \<Rightarrow> int \<Rightarrow> SaleItemCreate list \<Rightarrow> session \<Rightarrow> (error + unit) \<times> session" where
  "create_sale_items X new_sale_id [] s = (Inr (), s)"
| "create_sale_items X new_sale_id (item # rest) s =
     (case find (\<lambda>r. ProductDB.product_id r = SaleItemCreate.product_id item)
             (product_table (pending s)) of
        None \<Rightarrow>
          (Inl (HTTPException 404 (ProductWithIDNotFound (SaleItemCreate.product_id item))), s)
      | Some product \<Rightarrow>
          let item_unit_price =
                (case SaleItemCreate.unit_price item of
                   Some u \<Rightarrow> u
                 | None \<Rightarrow> ProductDB.price product);
              sale_item =
                \<lparr>SaleItemDB.sale_item_id =
                   autoincrement (map SaleItemDB.sale_item_id (sale_item_table (pending s))),
                 SaleItemDB.sale_id = new_sale_id,
                 SaleItemDB.product_id = SaleItemCreate.product_id item,
                 SaleItemDB.quantity = SaleItemCreate.quantity item,
                 SaleItemDB.unit_price = item_unit_price,
                 SaleItemDB.discount = SaleItemCreate.discount item\<rparr>
          in create_sale_items X new_sale_id rest (db_add_sale_item X sale_item s))"

definition create_sale :: "externals \<Rightarrow> SaleCreate \<Rightarrow> session \<Rightarrow> (error + SaleDB) \<times> session" where
  "create_sale X sale s =
     (let capitalized = capitalize (SaleCreate.payment_method sale);
          payment_method' = (if capitalized = ''Qr'' then ''QR'' else capitalized)
      in if payment_method' \<notin> set [''Cash'', ''Card'', ''QR'']
         then (Inl (HTTPException 400 PaymentMethodInvalid), s)
         else
           let new_sale =
                 \<lparr>SaleDB.sale_id = autoincrement (map SaleDB.sale_id (sale_table (pending s))),
                  SaleDB.sale_datetime =
                    (case SaleCreate.sale_datetime sale of
                       Some t \<Rightarrow> t
                     | None \<Rightarrow> current_timestamp X),
                  SaleDB.total_amount = 0,
                  SaleDB.payment_method = payment_method',
                  SaleDB.notes = SaleCreate.notes sale\<rparr>
           in case create_sale_items X (SaleDB.sale_id new_sale) (SaleCreate.items sale)
                     (db_add_sale new_sale s) of
                (Inl e, s') \<Rightarrow> (Inl e, s')
              | (Inr u, s') \<Rightarrow> (Inr new_sale, db_commit s'))"

definition sales_query :: "externals \<Rightarrow> SaleSearchParams \<Rightarrow> database \<Rightarrow> error + SaleDB list" where
  "sales_query X search_params d =
     (let q0 = sale_table d;
          q1 = (case truthy_str (SaleSearchParams.search search_params) of
                  None \<Rightarrow> q0
                | Some s \<Rightarrow> filter (\<lambda>r. sql_ilike X (SaleDB.notes r) (search_term s)) q0);
          q2 = (case truthy_str (SaleSearchParams.payment_method search_params) of
                  None \<Rightarrow> q1
                | Some m \<Rightarrow> filter (\<lambda>r. SaleDB.payment_method r = m) q1)
      in and_then
           (case truthy_str (SaleSearchParams.start_date search_params) of
              None \<Rightarrow> Inr q2
            | Some sd \<Rightarrow>
                and_then (parse_date X sd (HTTPException 400 DateFormatInvalid))
                  (\<lambda>day. Inr (filter (\<lambda>r. midnight day \<le> SaleDB.sale_datetime r) q2)))
           (\<lambda>q3.
              case truthy_str (SaleSearchParams.end_date search_params) of
                None \<Rightarrow> Inr q3
              | Some ed \<Rightarrow>
                  and_then (parse_date X ed (HTTPException 400 DateFormatInvalid))
                    (\<lambda>day. Inr (filter (\<lambda>r. SaleDB.sale_datetime r \<le> combine_max_time day) q3))))"

definition get_all_sales ::
  "externals \<Rightarrow> SaleSearchParams \<Rightarrow> database \<Rightarrow> error + SaleDB PaginatedResponse" where
  "get_all_sales X search_params d =
     and_then (sales_query X search_params d)
       (\<lambda>query.
          let total' = int (length query);
              sales = offset_limit
                ((PaginationParams.page search_params - 1) * PaginationParams.limit search_params)
                (PaginationParams.limit search_params)
                (order_by_desc SaleDB.sale_datetime query)
          in if sales = [] \<and> PaginationParams.page search_params = 1
             then Inl (HTTPException 404 SalesNotFound)
             else
               let total_pages' =
                     (total' + PaginationParams.limit search_params - 1)
                       div PaginationParams.limit search_params
               in Inr \<lparr>items = sales,
                       total = total',
                       page = PaginationParams.page search_params,
                       limit = PaginationParams.limit search_params,
                       total_pages = total_pages',
                       has_next = (PaginationParams.page search_params < total_pages'),
                       has_prev = (PaginationParams.page search_params > 1)\<rparr>)"


section \<open>routers/stocks.py\<close>

definition db_add_stock_in :: "StockInDB \<Rightarrow> session \<Rightarrow> session" where
  "db_add_stock_in row s =
     s\<lparr>pending := (pending s)\<lparr>stock_in_table := stock_in_table (pending s) @ [row]\<rparr>\<rparr>"

definition db_add_stock_in_item :: "StockInItemDB \<Rightarrow> session \<Rightarrow> session" where
  "db_add_stock_in_item row s =
     s\<lparr>pending := (pending s)\<lparr>stock_in_item_table := stock_in_item_table (pending s) @ [row]\<rparr>\<rparr>"

text \<open>The first loop of \<open>create_stock_in\<close>: every product is looked up, nothing is written.\<close>

fun validate_products :: "StockInItemCreate list \<Rightarrow> session \<Rightarrow> error + unit" where
  "validate_products [] s = Inr ()"
| "validate_products (item # rest) s =
     (case find (\<lambda>r. ProductDB.product_id r = StockInItemCreate.product_id item)
             (product_table (pending s)) of
        None \<Rightarrow> Inl (HTTPException 404 (StockInProductNotFound (StockInItemCreate.product_id item)))
      | Some product \<Rightarrow> validate_products rest s)"

text \<open>The second loop: one item row for each item of the request.\<close>

fun create_stock_in_items :: "int \<Rightarrow> StockInItemCreate list \<Rightarrow> session \<Rightarrow> session" where
  "create_stock_in_items new_stock_in_id [] s = s"
| "create_stock_in_items new_stock_in_id (item # rest) s =
     (let stock_in_item =
            \<lparr>StockInItemDB.stock_in_item_id =
               autoincrement (map StockInItemDB.stock_in_item_id (stock_in_item_table (pending s))),
             StockInItemDB.stock_in_id = new_stock_in_id,
             StockInItemDB.product_id = StockInItemCreate.product_id item,
             StockInItemDB.quantity = StockInItemCreate.quantity item,
             StockInItemDB.unit_cost = StockInItemCreate.unit_cost item\<rparr>
      in create_stock_in_items new_stock_in_id rest (db_add_stock_in_item stock_in_item s))"

definition create_stock_in :: "externals \<Rightarrow> StockInCreate \<Rightarrow> session \<Rightarrow> (error + StockInDB) \<times> session" where
  "create_stock_in X stock_in s =
     (case validate_products (StockInCreate.items stock_in) s of
        Inl e \<Rightarrow> (Inl e, s)
      | Inr u \<Rightarrow>
          let new_stock_in =
                \<lparr>StockInDB.stock_in_id =
                   autoincrement (map StockInDB.stock_in_id (stock_in_table (pending s))),
                 StockInDB.ref_no = StockInCreate.ref_no stock_in,
                 StockInDB.stock_in_date =
                   (case StockInCreate.stock_in_date stock_in of
                      Some t \<Rightarrow> t
                    | None \<Rightarrow> current_timestamp X),
                 StockInDB.total_cost = 0,
                 StockInDB.notes = StockInCreate.notes stock_in\<rparr>
          in (Inr new_stock_in,
              db_commit (create_stock_in_items (StockInDB.stock_in_id new_stock_in)
                (StockInCreate.items stock_in) (db_add_stock_in new_stock_in s))))"

definition stock_in_query :: "externals \<Rightarrow> StockInSearchParams \<Rightarrow> database \<Rightarrow> error + StockInDB list" where
  "stock_in_query X search_params d =
     (let q0 = stock_in_table d;
          q1 = (case truthy_str (StockInSearchParams.search search_params) of
                  None \<Rightarrow> q0
                | Some s \<Rightarrow>
                    filter (\<lambda>r. sql_ilike X (StockInDB.ref_no r) (search_term s)
                                \<or> sql_ilike X (StockInDB.notes r) (search_term s)) q0)
      in and_then
           (case truthy_str (StockInSearchParams.start_date search_params) of
              None \<Rightarrow> Inr q1
            | Some sd \<Rightarrow>
                and_then (parse_date X sd (HTTPException 400 DateFormatInvalid))
                  (\<lambda>day. Inr (filter (\<lambda>r. midnight day \<le> StockInDB.stock_in_date r) q1)))
           (\<lambda>q2.
              case truthy_str (StockInSearchParams.end_date search_params) of
                None \<Rightarrow> Inr q2
              | Some ed \<Rightarrow>
                  and_then (parse_date X ed (HTTPException 400 DateFormatInvalid))
                    (\<lambda>day. Inr (filter (\<lambda>r. StockInDB.stock_in_date r \<le> combine_max_time day) q2))))"

definition get_all_stock_in ::
  "externals \<Rightarrow> StockInSearchParams \<Rightarrow> database \<Rightarrow> error + StockInDB PaginatedResponse" where
  "get_all_stock_in X search_params d =
     and_then (stock_in_query X search_params d)
       (\<lambda>query.
          let total' = int (length query);
              stock_ins = offset_limit
                ((PaginationParams.page search_params - 1) * PaginationParams.limit search_params)
                (PaginationParams.limit search_params)
                (order_by_desc StockInDB.stock_in_date query)
          in if stock_ins = [] \<and> PaginationParams.page search_params = 1
             then Inl (HTTPException 404 StockInsNotFound)
             else
               let total_pages' =
                     (total' + PaginationParams.limit search_params - 1)
                       div PaginationParams.limit search_params
               in Inr \<lparr>items = stock_ins,
                       total = total',
                       page = PaginationParams.page search_params,
                       limit = PaginationParams.limit search_params,
                       total_pages = total_pages',
                       has_next = (PaginationParams.page search_params < total_pages'),
                       has_prev = (PaginationParams.page search_params > 1)\<rparr>)"

section \<open>routers/inventories.py\<close>

definition allowed_types :: "string set" where
  "allowed_types = {''OPENING'', ''STOCK_IN'', ''SALE''}"

definition inventory_movements_query ::
  "externals \<Rightarrow> InventoryMovementSearchParams \<Rightarrow> database \<Rightarrow> error + InventoryMovementDB list" where
  "inventory_movements_query X search_params d =
     (let q0 = inventory_movement_table d;
          q1 = (case truthy_int (InventoryMovementSearchParams.product_id search_params) of
                  None \<Rightarrow> q0
                | Some i \<Rightarrow> filter (\<lambda>m. InventoryMovementDB.product_id m = i) q0)
      in and_then
           (case truthy_str (InventoryMovementSearchParams.movement_type search_params) of
              None \<Rightarrow> Inr q1
            | Some t \<Rightarrow>
                if upper t \<notin> allowed_types
                then Inl (HTTPException 400 (MovementTypeInvalid allowed_types))
                else Inr (filter (\<lambda>m. InventoryMovementDB.movement_type m = upper t) q1))
           (\<lambda>q2.
              and_then
                (case truthy_str (InventoryMovementSearchParams.start_date search_params) of
                   None \<Rightarrow> Inr q2
                 | Some sd \<Rightarrow>
                     and_then (parse_date X sd (HTTPException 400 StartDateFormatInvalid))
                       (\<lambda>day. Inr (filter (\<lambda>m. midnight day \<le> movement_date m) q2)))
                (\<lambda>q3.
                   case truthy_str (InventoryMovementSearchParams.end_date search_params) of
                     None \<Rightarrow> Inr q3
                   | Some ed \<Rightarrow>
                       and_then (parse_date X ed (HTTPException 400 EndDateFormatInvalid))
                         (\<lambda>day. Inr (filter (\<lambda>m. movement_date m \<le> replace_235959 day) q3)))))"

definition get_all_inventory_movements ::
  "externals \<Rightarrow> InventoryMovementSearchParams \<Rightarrow> database
     \<Rightarrow> error + InventoryMovementDB PaginatedResponse" where
  "get_all_inventory_movements X search_params d =
     and_then (inventory_movements_query X search_params d)
       (\<lambda>query.
          let total' = int (length query);
              movements = offset_limit
                ((PaginationParams.page search_params - 1) * PaginationParams.limit search_params)
                (PaginationParams.limit search_params)
                (order_by_desc movement_date query)
          in if movements = [] \<and> PaginationParams.page search_params = 1
             then Inl (HTTPException 404 MovementsNotFound)
             else
               let total_pages' =
                     (total' + PaginationParams.limit search_params - 1)
                       div PaginationParams.limit search_params
               in Inr \<lparr>items = movements,
                       total = total',
                       page = PaginationParams.page search_params,
                       limit = PaginationParams.limit search_params,
                       total_pages = total_pages',
                       has_next = (PaginationParams.page search_params < total_pages'),
                       has_prev = (PaginationParams.page search_params > 1)\<rparr>)"

text \<open>
  \<open>movement_db.movement_type = ...\<close> followed by \<open>db.commit()\<close>: the update of the row
  with that key, and of no other column.
\<close>

definition db_set_movement_type :: "int \<Rightarrow> string \<Rightarrow> session \<Rightarrow> session" where
  "db_set_movement_type movement_id' t s =
     s\<lparr>pending := (pending s)\<lparr>inventory_movement_table :=
        map (\<lambda>m. if InventoryMovementDB.movement_id m = movement_id'
                  then m\<lparr>InventoryMovementDB.movement_type := t\<rparr> else m)
          (inventory_movement_table (pending s))\<rparr>\<rparr>"

definition update_inventory_movement_type ::
  "int \<Rightarrow> InventoryMovementUpdate \<Rightarrow> session \<Rightarrow> (error + InventoryMovementDB) \<times> session" where
  "update_inventory_movement_type movement_id' movement_update s =
     (case find (\<lambda>m. InventoryMovementDB.movement_id m = movement_id')
             (inventory_movement_table (pending s)) of
        None \<Rightarrow> (Inl (HTTPException 404 (MovementIdNotFound movement_id')), s)
      | Some movement_db \<Rightarrow>
          (case truthy_str (InventoryMovementUpdate.movement_type movement_update) of
             Some t \<Rightarrow>
               if upper t \<notin> allowed_types
               then (Inl (HTTPException 400 (MovementTypeInvalid allowed_types)), s)
               else (Inr (movement_db\<lparr>InventoryMovementDB.movement_type := upper t\<rparr>),
                     db_commit (db_set_movement_type movement_id' (upper t) s))
           | None \<Rightarrow> (Inr movement_db, db_commit s)))"

text \<open>
  The endpoint: the body is checked against \<open>InventoryMovementUpdate\<close>, and only an
  accepted one reaches the handler, in a session.
\<close>

definition patch_inventory_movement ::
  "int \<Rightarrow> InventoryMovementUpdate_body \<Rightarrow> database \<Rightarrow> (error + InventoryMovementDB) \<times> database" where
  "patch_inventory_movement movement_id' body d =
     (case InventoryMovementUpdate_model body of
        Inl e \<Rightarrow> (Inl e, d)
      | Inr movement_update \<Rightarrow> get_db (update_inventory_movement_type movement_id' movement_update) d)"

section \<open>routers/report.py\<close>

definition product_stock_query ::
  "externals \<Rightarrow> ProductStockSearchParams \<Rightarrow> database \<Rightarrow> ProductStockView list" where
  "product_stock_query X search_params d =
     (let q0 = v_product_stock d;
          q1 = (if productFilter search_params = Some ''r''
                then filter (\<lambda>r. needs_restock r = 1) q0
                else if productFilter search_params = Some ''nr''
                then filter (\<lambda>r. needs_restock r = 0) q0
                else q0)
      in case truthy_str (ProductStockSearchParams.search search_params) of
           None \<Rightarrow> q1
         | Some s \<Rightarrow> filter (\<lambda>r. ilike X (ProductStockView.name r) (search_term s)) q1)"

definition get_product_stock_report ::
  "externals \<Rightarrow> ProductStockSearchParams \<Rightarrow> database \<Rightarrow> error + ProductStockView PaginatedResponse" where
  "get_product_stock_report X search_params d =
     (let query = product_stock_query X search_params d;
          total' = int (length query)
      in if total' = 0 then Inl (HTTPException 404 StockDataNotFound)
         else
           let total_pages' =
                 (total' + PaginationParams.limit search_params - 1) div PaginationParams.limit search_params;
               stock_data = offset_limit
                 ((PaginationParams.page search_params - 1) * PaginationParams.limit search_params)
                 (PaginationParams.limit search_params)
                 (order_by ProductStockView.name query)
           in Inr \<lparr>items = stock_data,
                   total = total',
                   page = PaginationParams.page search_params,
                   limit = PaginationParams.limit search_params,
                   total_pages = total_pages',
                   has_next = (PaginationParams.page search_params < total_pages'),
                   has_prev = (PaginationParams.page search_params > 1)\<rparr>)"

text \<open>The two date filters that the profitability report and its summary share.\<close>

definition profitability_date_filters ::
  "externals \<Rightarrow> string option \<Rightarrow> string option \<Rightarrow> ProfitabilityReportView list
     \<Rightarrow> error + ProfitabilityReportView list" where
  "profitability_date_filters X start_date' end_date' q0 =
     and_then
       (case truthy_str start_date' of
          None \<Rightarrow> Inr q0
        | Some sd \<Rightarrow>
            and_then (parse_date X sd (HTTPException 400 DateFormatInvalid))
              (\<lambda>day. Inr (filter (\<lambda>r. midnight day \<le> ProfitabilityReportView.sale_datetime r) q0)))
       (\<lambda>q1.
          case truthy_str end_date' of
            None \<Rightarrow> Inr q1
          | Some ed \<Rightarrow>
              and_then (parse_date X ed (HTTPException 400 DateFormatInvalid))
                (\<lambda>day. Inr (filter
                   (\<lambda>r. ProfitabilityReportView.sale_datetime r \<le> combine_max_time day) q1)))"

definition profitability_query ::
  "externals \<Rightarrow> ProfitabilityReportSearchParams \<Rightarrow> database \<Rightarrow> error + ProfitabilityReportView list" where
  "profitability_query X search_params d =
     and_then
       (profitability_date_filters X
          (ProfitabilityReportSearchParams.start_date search_params)
          (ProfitabilityReportSearchParams.end_date search_params)
          (v_profitability_report d))
       (\<lambda>q2.
          let q3 = (case truthy_str (ProfitabilityReportSearchParams.search search_params) of
                      None \<Rightarrow> q2
                    | Some s \<Rightarrow> filter (\<lambda>r. ilike X (product_name r) (search_term s)) q2)
          in Inr (case truthy_int (ProfitabilityReportSearchParams.product_id search_params) of
                    None \<Rightarrow> q3
                  | Some i \<Rightarrow> filter (\<lambda>r. ProfitabilityReportView.product_id r = i) q3))"

definition get_profitability_report ::
  "externals \<Rightarrow> ProfitabilityReportSearchParams \<Rightarrow> database
     \<Rightarrow> error + ProfitabilityReportView PaginatedResponse" where
  "get_profitability_report X search_params d =
     and_then (profitability_query X search_params d)
       (\<lambda>query.
          let total' = int (length query)
          in if total' = 0 then Inl (HTTPException 404 ProfitabilityNotFound)
             else
               let total_pages' =
                     (total' + PaginationParams.limit search_params - 1)
                       div PaginationParams.limit search_params;
                   report_data = offset_limit
                     ((PaginationParams.page search_params - 1) * PaginationParams.limit search_params)
                     (PaginationParams.limit search_params)
                     (order_by_desc ProfitabilityReportView.sale_datetime query)
               in Inr \<lparr>items = report_data,
                       total = total',
                       page = PaginationParams.page search_params,
                       limit = PaginationParams.limit search_params,
                       total_pages = total_pages',
                       has_next = (PaginationParams.page search_params < total_pages'),
                       has_prev = (PaginationParams.page search_params > 1)\<rparr>)"

subsection \<open>The profitability summary\<close>

text \<open>
  \<open>func.sum\<close> over a column: \<open>NULL\<close> values are skipped, and the sum of none is \<open>NULL\<close>.
  \<open>float(x or 0)\<close> turns a \<open>NULL\<close> sum into 0.
\<close>

fun sql_sum :: "decimal option list \<Rightarrow> decimal option" where
  "sql_sum [] = None"
| "sql_sum (None # vs) = sql_sum vs"
| "sql_sum (Some v # vs) = (case sql_sum vs of None \<Rightarrow> Some v | Some t \<Rightarrow> Some (v + t))"

definition or_0 :: "decimal option \<Rightarrow> py_float" where
  "or_0 v = (case v of None \<Rightarrow> 0 | Some x \<Rightarrow> x)"

text \<open>Python's \<open>/\<close> raises on a zero divisor.\<close>

definition truediv :: "py_float \<Rightarrow> py_float \<Rightarrow> error + py_float" where
  "truediv a b = (if b = 0 then Inl ZeroDivisionError else Inr (a / b))"

text \<open>\<open>round(x, 2)\<close>: to the nearest hundredth, a tie to the even one.\<close>

definition round_half_even :: "rat \<Rightarrow> int" where
  "round_half_even x =
     (let f = \<lfloor>x\<rfloor>; r = x - of_int f
      in if r < 1 / 2 then f else if 1 / 2 < r then f + 1 else if even f then f else f + 1)"

definition round2 :: "py_float \<Rightarrow> py_float" where
  "round2 x = of_int (round_half_even (x * 100)) / 100"

text \<open>
  The constructors of the two response models, with the bounds their fields declare
  (\<open>ge=0\<close>, and \<open>le=100\<close> for the margin): a value outside them raises.
\<close>

definition MostProfitableProduct_model :: "string \<Rightarrow> py_float \<Rightarrow> error + MostProfitableProduct" where
  "MostProfitableProduct_model name' total_profit' =
     (if 0 \<le> total_profit'
      then Inr \<lparr>MostProfitableProduct.name = name', total_profit = total_profit'\<rparr>
      else Inl ValidationError)"

definition ProfitabilitySummary_model ::
  "int \<Rightarrow> py_float \<Rightarrow> py_float \<Rightarrow> py_float \<Rightarrow> py_float \<Rightarrow> MostProfitableProduct list option
     \<Rightarrow> error + ProfitabilitySummary" where
  "ProfitabilitySummary_model total_sales' total_revenue' total_cogs' total_gross_profit'
       average_profit_margin' top_profitable_products' =
     (if 0 \<le> total_sales' \<and> 0 \<le> total_revenue' \<and> 0 \<le> total_cogs' \<and> 0 \<le> total_gross_profit'
         \<and> 0 \<le> average_profit_margin' \<and> average_profit_margin' \<le> 100
      then Inr \<lparr>total_sales = total_sales',
                total_revenue = total_revenue',
                total_cogs = total_cogs',
                total_gross_profit = total_gross_profit',
                average_profit_margin = average_profit_margin',
                top_profitable_products = top_profitable_products'\<rparr>
      else Inl ValidationError)"

text \<open>
  The three products with the largest summed gross profit: the rows grouped by product id
  and name, each group with its sum, in descending order of the sum.
\<close>

definition top_products_query :: "ProfitabilityReportView list \<Rightarrow> (string \<times> decimal option) list" where
  "top_products_query q =
     take 3 (order_by_desc snd
       (map (\<lambda>k. (snd k,
                  sql_sum (map gross_profit
                    (filter (\<lambda>r. (ProfitabilityReportView.product_id r, product_name r) = k) q))))
          (remdups (map (\<lambda>r. (ProfitabilityReportView.product_id r, product_name r)) q))))"

text \<open>The loop that builds the list of the response; \<open>float(None)\<close> raises \<open>TypeError\<close>.\<close>

fun top_profitable_products_list ::
  "(string \<times> decimal option) list \<Rightarrow> error + MostProfitableProduct list" where
  "top_profitable_products_list [] = Inr []"
| "top_profitable_products_list ((product_name', total_profit') # rest) =
     (case total_profit' of
        None \<Rightarrow> Inl TypeError
      | Some v \<Rightarrow>
          and_then (MostProfitableProduct_model product_name' v)
            (\<lambda>m. and_then (top_profitable_products_list rest) (\<lambda>ms. Inr (m # ms))))"

text \<open>
  The summary. With no row it returns at once; the keyword \<open>most_profitable_product\<close> of
  that call names no field of the response model and is ignored, so that
  \<open>top_profitable_products\<close> keeps its default \<open>None\<close>.
\<close>

definition profitability_summary_query ::
  "externals \<Rightarrow> string option \<Rightarrow> string option \<Rightarrow> database \<Rightarrow> error + ProfitabilityReportView list" where
  "profitability_summary_query X start_date' end_date' d =
     profitability_date_filters X start_date' end_date' (v_profitability_report d)"

definition get_profitability_summary ::
  "externals \<Rightarrow> string option \<Rightarrow> string option \<Rightarrow> database \<Rightarrow> error + ProfitabilitySummary" where
  "get_profitability_summary X start_date' end_date' d =
     and_then (profitability_summary_query X start_date' end_date' d)
       (\<lambda>q.
          let total_sales' = int (length q)
          in if total_sales' = 0
             then ProfitabilitySummary_model 0 0 0 0 0 None
             else
               let total_revenue' = or_0 (sql_sum (map ProfitabilityReportView.total_revenue q));
                   total_cogs' = or_0 (sql_sum (map ProfitabilityReportView.total_cogs q));
                   total_gross_profit' = or_0 (sql_sum (map gross_profit q))
               in and_then
                    (if total_revenue' > 0
                     then and_then (truediv total_gross_profit' total_revenue') (\<lambda>x. Inr (x * 100))
                     else Inr 0)
                    (\<lambda>average_profit_margin'.
                       and_then (top_profitable_products_list (top_products_query q))
                         (\<lambda>top_profitable_products_list'.
                            ProfitabilitySummary_model total_sales' total_revenue' total_cogs'
                              total_gross_profit' (round2 average_profit_margin')
                              (Some top_profitable_products_list'))))"

section \<open>Expected results\<close>

text \<open>
  Predicates that follow the words of the specification, to be compared with what the
  handlers above compute.
\<close>




text \<open>
  What is expected of the envelope a list call returns for the parameters \<open>p\<close>: it repeats
  the page and the limit, \<open>total_pages\<close> is the total divided by the limit and rounded up,
  \<open>has_next\<close> and \<open>has_prev\<close> compare the page with the last and the first one, and the
  page holds no more items than the limit.
\<close>

definition envelope_ok :: "'p PaginationParams_scheme \<Rightarrow> 'a PaginatedResponse \<Rightarrow> bool" where
  "envelope_ok p r =
     (PaginatedResponse.page r = PaginationParams.page p
      \<and> PaginatedResponse.limit r = PaginationParams.limit p
      \<and> total_pages r
          = \<lceil>real_of_int (total r) / real_of_int (PaginatedResponse.limit r)\<rceil>
      \<and> has_next r = (PaginatedResponse.page r < total_pages r)
      \<and> has_prev r = (PaginatedResponse.page r > 1)
      \<and> int (length (PaginatedResponse.items r)) \<le> PaginatedResponse.limit r)"

section \<open>Example data\<close>

definition empty_database :: database where
  "empty_database =
     \<lparr>category_table = [], product_table = [], sale_table = [], sale_item_table = [],
      stock_in_table = [], stock_in_item_table = [], inventory_movement_table = [],
      v_product_stock = [], v_profitability_report = []\<rparr>"

definition movement_1 :: InventoryMovementDB where
  "movement_1 =
     \<lparr>InventoryMovementDB.movement_id = 1, InventoryMovementDB.product_id = 7,
      InventoryMovementDB.movement_type = ''OPENING'', InventoryMovementDB.quantity = 5,
      InventoryMovementDB.unit_cost = Some 2, sale_price = None,
      InventoryMovementDB.sale_item_id = None, InventoryMovementDB.stock_in_item_id = None,
      movement_date = 0\<rparr>"

definition movements_db :: database where
  "movements_db = empty_database\<lparr>inventory_movement_table := [movement_1]\<rparr>"

text \<open>
  Stand-ins for the externals: an \<open>ILIKE\<close> that matches a pattern \<open>%v%\<close> against the whole
  value \<open>v\<close>, a \<open>strptime\<close> that knows one date, a fixed clock, and a column that rounds
  to the nearest hundredth, a tie away from zero.
\<close>

definition round_half_away_2 :: "rat \<Rightarrow> decimal" where
  "round_half_away_2 x =
     (if 0 \<le> x then of_int \<lfloor>x * 100 + 1 / 2\<rfloor> / 100
      else - (of_int \<lfloor>- x * 100 + 1 / 2\<rfloor> / 100))"

definition example_externals :: externals where
  "example_externals =
     \<lparr>ilike = (\<lambda>v pat. pat = ''%'' @ v @ ''%''),
      strptime = (\<lambda>s. if s = ''2024-01-02'' then Some 19724 else None),
      current_timestamp = 1704153600000000,
      decimal_10_2 = round_half_away_2\<rparr>"

definition product_tea :: ProductDB where
  "product_tea =
     \<lparr>ProductDB.product_id = 1, ProductDB.name = ''Tea'', ProductDB.category_id = None,
      ProductDB.sku = None, ProductDB.price = 25 / 2, ProductDB.reorder_level = 10\<rparr>"

definition product_cup :: ProductDB where
  "product_cup =
     \<lparr>ProductDB.product_id = 2, ProductDB.name = ''Cup'', ProductDB.category_id = None,
      ProductDB.sku = Some ''CUP-1'', ProductDB.price = 40, ProductDB.reorder_level = 3\<rparr>"

definition shop_db :: database where
  "shop_db = empty_database\<lparr>product_table := [product_tea, product_cup]\<rparr>"

definition sale_item_request :: "int \<Rightarrow> int \<Rightarrow> py_float option \<Rightarrow> SaleItemCreate" where
  "sale_item_request pid qty up =
     \<lparr>SaleItemCreate.product_id = pid, SaleItemCreate.quantity = qty,
      SaleItemCreate.unit_price = up, SaleItemCreate.discount = 0\<rparr>"

definition sale_request :: "string \<Rightarrow> SaleItemCreate list \<Rightarrow> SaleCreate" where
  "sale_request pm its =
     \<lparr>SaleCreate.sale_datetime = Some 500, SaleCreate.payment_method = pm,
      SaleCreate.notes = None, SaleCreate.items = its\<rparr>"

definition sale_row :: "string \<Rightarrow> SaleDB" where
  "sale_row pm =
     \<lparr>SaleDB.sale_id = 1, SaleDB.sale_datetime = 500, SaleDB.total_amount = 0,
      SaleDB.payment_method = pm, SaleDB.notes = None\<rparr>"

definition sale_item_row :: "int \<Rightarrow> int \<Rightarrow> int \<Rightarrow> decimal \<Rightarrow> SaleItemDB" where
  "sale_item_row iid pid qty up =
     \<lparr>SaleItemDB.sale_item_id = iid, SaleItemDB.sale_id = 1, SaleItemDB.product_id = pid,
      SaleItemDB.quantity = qty, SaleItemDB.unit_price = up, SaleItemDB.discount = 0\<rparr>"


definition stock_in_item_request :: "int \<Rightarrow> int \<Rightarrow> py_float \<Rightarrow> StockInItemCreate" where
  "stock_in_item_request pid qty cost =
     \<lparr>StockInItemCreate.product_id = pid, StockInItemCreate.quantity = qty,
      StockInItemCreate.unit_cost = cost\<rparr>"

definition stock_in_request :: "StockInItemCreate list \<Rightarrow> StockInCreate" where
  "stock_in_request its =
     \<lparr>StockInCreate.stock_in_date = None, StockInCreate.ref_no = Some ''PO-7'',
      StockInCreate.notes = None, StockInCreate.items = its\<rparr>"

definition sample_body :: "py_float \<Rightarrow> ProductCreate_body" where
  "sample_body p =
     \<lparr>ProductCreate_body.name = ''Sample'', ProductCreate_body.category_id = None,
      ProductCreate_body.sku = None, ProductCreate_body.price = p,
      ProductCreate_body.reorder_level = None\<rparr>"

definition sample_row :: "decimal \<Rightarrow> ProductDB" where
  "sample_row p =
     \<lparr>ProductDB.product_id = 1, ProductDB.name = ''Sample'', ProductDB.category_id = None,
      ProductDB.sku = None, ProductDB.price = p, ProductDB.reorder_level = 10\<rparr>"

definition category_row :: "int \<Rightarrow> string \<Rightarrow> CategoryDB" where
  "category_row i n = \<lparr>CategoryDB.category_id = i, CategoryDB.name = n\<rparr>"

definition sale_at :: "int \<Rightarrow> datetime \<Rightarrow> SaleDB" where
  "sale_at i t =
     \<lparr>SaleDB.sale_id = i, SaleDB.sale_datetime = t, SaleDB.total_amount = 0,
      SaleDB.payment_method = ''Cash'', SaleDB.notes = None\<rparr>"

definition stock_in_row :: StockInDB where
  "stock_in_row =
     \<lparr>StockInDB.stock_in_id = 1, StockInDB.ref_no = Some ''PO-7'', StockInDB.stock_in_date = 100,
      StockInDB.total_cost = 8, StockInDB.notes = None\<rparr>"

definition movement_2 :: InventoryMovementDB where
  "movement_2 =
     \<lparr>InventoryMovementDB.movement_id = 2, InventoryMovementDB.product_id = 7,
      InventoryMovementDB.movement_type = ''SALE'', InventoryMovementDB.quantity = 1,
      InventoryMovementDB.unit_cost = None, sale_price = Some 4,
      InventoryMovementDB.sale_item_id = Some 1, InventoryMovementDB.stock_in_item_id = None,
      movement_date = 50\<rparr>"

definition stock_view_row :: "int \<Rightarrow> string \<Rightarrow> int \<Rightarrow> ProductStockView" where
  "stock_view_row i n flag =
     \<lparr>ProductStockView.product_id = i, ProductStockView.name = n, ProductStockView.price = 40,
      ProductStockView.reorder_level = 3, stock_on_hand = 2, needs_restock = flag\<rparr>"

definition profit_row :: "int \<Rightarrow> datetime \<Rightarrow> decimal \<Rightarrow> decimal \<Rightarrow> ProfitabilityReportView" where
  "profit_row i t revenue cogs =
     \<lparr>ProfitabilityReportView.sale_item_id = i, ProfitabilityReportView.sale_id = 1,
      ProfitabilityReportView.sale_datetime = t, ProfitabilityReportView.product_id = i,
      product_name = ''Tea'', ProfitabilityReportView.quantity = 1,
      ProfitabilityReportView.unit_price = revenue, ProfitabilityReportView.discount = 0,
      ProfitabilityReportView.total_revenue = Some revenue,
      average_cost_at_sale = Some cogs,
      ProfitabilityReportView.total_cogs = Some cogs,
      gross_profit = Some (revenue - cogs)\<rparr>"

definition full_db :: database where
  "full_db =
     \<lparr>category_table = [category_row 1 ''Drinks'', category_row 2 ''Snacks'', category_row 3 ''Tools''],
      product_table = [product_tea, product_cup],
      sale_table = [sale_at 1 500, sale_at 2 900],
      sale_item_table = [],
      stock_in_table = [stock_in_row],
      stock_in_item_table = [],
      inventory_movement_table = [movement_1, movement_2],
      v_product_stock = [stock_view_row 2 ''Cup'' 1, stock_view_row 1 ''Tea'' 0],
      v_profitability_report = [profit_row 1 500 10 4, profit_row 2 900 30 16]\<rparr>"

section \<open>Properties\<close>

subsection \<open>Patching a movement type\<close>

text \<open>
  The handler, on an existing movement, for a \<open>movement_type\<close> that is \<open>None\<close> or the empty
  string: nothing is validated, the record is returned as it was and the store is left as
  it was.
\<close>

lemma update_movement_type_noop:
  assumes "find (\<lambda>m. InventoryMovementDB.movement_id m = mid) (inventory_movement_table d) = Some m"
    and "InventoryMovementUpdate.movement_type u = None
         \<or> InventoryMovementUpdate.movement_type u = Some ''''"
  shows "get_db (update_inventory_movement_type mid u) d = (Inr m, d)"
  using assms
  by (auto simp add: get_db_def update_inventory_movement_type_def truthy_str_def db_commit_def)

text \<open>
  C10, as the claim states it. The claim lists a supplied \<open>None\<close> among the inputs for
  which the call succeeds; the request model declares the field a string, and a body that
  supplies \<open>None\<close> is refused with a validation error before the handler runs.
\<close>

theorem patch_movement_type_null_counterexample:
  "find (\<lambda>m. InventoryMovementDB.movement_id m = 1) (inventory_movement_table movements_db)
     = Some movement_1
   \<and> patch_inventory_movement 1 \<lparr>InventoryMovementUpdate_body.movement_type = Null\<rparr> movements_db
       = (Inl RequestValidationError, movements_db)"
  by (simp add: patch_inventory_movement_def InventoryMovementUpdate_model_def
      movements_db_def movement_1_def empty_database_def)

text \<open>
  C10, amended. On an existing movement, a patch whose body leaves \<open>movement_type\<close> out or
  supplies the empty string succeeds and returns the record as it was; nothing is
  validated and the store is left as it was.
\<close>

theorem patch_movement_type_noop:
  assumes "find (\<lambda>m. InventoryMovementDB.movement_id m = mid) (inventory_movement_table d) = Some m"
    and "InventoryMovementUpdate_body.movement_type body = Absent
         \<or> InventoryMovementUpdate_body.movement_type body = Supplied ''''"
  shows "patch_inventory_movement mid body d = (Inr m, d)"
proof -
  from assms(2) obtain u where
    accepted: "InventoryMovementUpdate_model body = Inr u"
    and u: "InventoryMovementUpdate.movement_type u = None
            \<or> InventoryMovementUpdate.movement_type u = Some ''''"
    by (auto simp add: InventoryMovementUpdate_model_def)
  from update_movement_type_noop [OF assms(1) u] accepted show ?thesis
    by (simp add: patch_inventory_movement_def)
qed

theorem patch_movement_type_noop_witness:
  "find (\<lambda>m. InventoryMovementDB.movement_id m = 1) (inventory_movement_table movements_db)
     = Some movement_1
   \<and> patch_inventory_movement 1 \<lparr>InventoryMovementUpdate_body.movement_type = Absent\<rparr> movements_db
       = (Inr movement_1, movements_db)
   \<and> patch_inventory_movement 1 \<lparr>InventoryMovementUpdate_body.movement_type = Supplied ''''\<rparr>
         movements_db
       = (Inr movement_1, movements_db)"
proof -
  have found:
    "find (\<lambda>m. InventoryMovementDB.movement_id m = 1) (inventory_movement_table movements_db)
       = Some movement_1"
    by (simp add: movements_db_def movement_1_def empty_database_def)
  show ?thesis
    using found
      patch_movement_type_noop
        [OF found, of "\<lparr>InventoryMovementUpdate_body.movement_type = Absent\<rparr>"]
      patch_movement_type_noop
        [OF found, of "\<lparr>InventoryMovementUpdate_body.movement_type = Supplied ''''\<rparr>"]
    by simp
qed

text \<open>
  C7, as the claim states it. The claim speaks of every supplied value whose upper-case
  form is outside the allowed set; the empty string is such a value, and the handler
  accepts it without a check.
\<close>

theorem update_movement_type_empty_counterexample:
  "upper '''' \<notin> {''OPENING'', ''STOCK_IN'', ''SALE''}
   \<and> get_db (update_inventory_movement_type 1 \<lparr>InventoryMovementUpdate.movement_type = Some ''''\<rparr>)
         movements_db
       = (Inr movement_1, movements_db)"
  by (simp add: upper_def get_db_def update_inventory_movement_type_def truthy_str_def db_commit_def
       movements_db_def movement_1_def empty_database_def)

text \<open>
  C7, amended. On an existing movement and for every supplied \<^emph>\<open>non-empty\<close>
  \<open>movement_type\<close>: when its upper-case form is not one of \<open>OPENING\<close>, \<open>STOCK_IN\<close>, \<open>SALE\<close>
  the call fails with status 400, the detail lists the allowed values, and the store is
  unchanged; otherwise the call succeeds, returns the movement with the upper-case value as
  its type, and the store differs only in the \<open>movement_type\<close> of the rows with that key.
\<close>

theorem update_movement_type_checked:
  assumes "find (\<lambda>m. InventoryMovementDB.movement_id m = mid) (inventory_movement_table d) = Some m"
    and "InventoryMovementUpdate.movement_type u = Some t"
    and "t \<noteq> []"
  shows "(upper t \<notin> {''OPENING'', ''STOCK_IN'', ''SALE''} \<longrightarrow>
            get_db (update_inventory_movement_type mid u) d
              = (Inl (HTTPException 400 (MovementTypeInvalid {''OPENING'', ''STOCK_IN'', ''SALE''})), d))
       \<and> (upper t \<in> {''OPENING'', ''STOCK_IN'', ''SALE''} \<longrightarrow>
            get_db (update_inventory_movement_type mid u) d
              = (Inr (m\<lparr>InventoryMovementDB.movement_type := upper t\<rparr>),
                 d\<lparr>inventory_movement_table :=
                     map (\<lambda>r. if InventoryMovementDB.movement_id r = mid
                               then r\<lparr>InventoryMovementDB.movement_type := upper t\<rparr> else r)
                       (inventory_movement_table d)\<rparr>))"
  using assms
  by (simp add: get_db_def update_inventory_movement_type_def truthy_str_def db_commit_def
      db_set_movement_type_def allowed_types_def)

theorem update_movement_type_checked_witness:
  "find (\<lambda>m. InventoryMovementDB.movement_id m = 1) (inventory_movement_table movements_db)
     = Some movement_1
   \<and> ''sale'' \<noteq> [] \<and> upper ''sale'' \<in> {''OPENING'', ''STOCK_IN'', ''SALE''}
   \<and> get_db (update_inventory_movement_type 1 \<lparr>InventoryMovementUpdate.movement_type = Some ''sale''\<rparr>)
         movements_db
       = (Inr (movement_1\<lparr>InventoryMovementDB.movement_type := ''SALE''\<rparr>),
          movements_db\<lparr>inventory_movement_table :=
            [movement_1\<lparr>InventoryMovementDB.movement_type := ''SALE''\<rparr>]\<rparr>)
   \<and> ''Transfer'' \<noteq> [] \<and> upper ''Transfer'' \<notin> {''OPENING'', ''STOCK_IN'', ''SALE''}
   \<and> get_db (update_inventory_movement_type 1 \<lparr>InventoryMovementUpdate.movement_type = Some ''Transfer''\<rparr>)
         movements_db
       = (Inl (HTTPException 400 (MovementTypeInvalid {''OPENING'', ''STOCK_IN'', ''SALE''})), movements_db)"
proof -
  have found:
    "find (\<lambda>m. InventoryMovementDB.movement_id m = 1) (inventory_movement_table movements_db)
       = Some movement_1"
    by (simp add: movements_db_def movement_1_def empty_database_def)
  have sale: "upper ''sale'' = ''SALE''" by code_simp
  have transfer: "upper ''Transfer'' = ''TRANSFER''" by code_simp
  have table: "inventory_movement_table movements_db = [movement_1]"
    by (simp add: movements_db_def empty_database_def)
  have key: "InventoryMovementDB.movement_id movement_1 = 1"
    by (simp add: movement_1_def)
  show ?thesis
    using found
      update_movement_type_checked [OF found, of "\<lparr>InventoryMovementUpdate.movement_type = Some ''sale''\<rparr>" "''sale''"]
      update_movement_type_checked [OF found, of "\<lparr>InventoryMovementUpdate.movement_type = Some ''Transfer''\<rparr>" "''Transfer''"]
    by (simp add: sale transfer table key)
qed

subsection \<open>Letter case\<close>

lemma char_lower_upper: "char_lower (char_upper c) = char_lower c"
  by (simp add: char_lower_def char_upper_def ascii_lowercase_def ascii_uppercase_def)

lemma char_upper_lower: "char_upper (char_lower c) = char_upper c"
  by (simp add: char_lower_def char_upper_def ascii_lowercase_def ascii_uppercase_def)

lemma char_lower_lower: "char_lower (char_lower c) = char_lower c"
  by (simp add: char_lower_def char_upper_def ascii_lowercase_def ascii_uppercase_def)

lemma lower_capitalize: "lower (capitalize s) = lower s"
  by (cases s) (simp_all add: lower_def char_lower_upper char_lower_lower)

lemma capitalize_lower: "capitalize (lower s) = capitalize s"
  by (cases s) (simp_all add: lower_def char_upper_lower char_lower_lower)

lemma capitalize_cash: "capitalize ''cash'' = ''Cash''" by code_simp
lemma capitalize_card: "capitalize ''card'' = ''Card''" by code_simp
lemma capitalize_qr: "capitalize ''qr'' = ''Qr''" by code_simp
lemma lower_Cash: "lower ''Cash'' = ''cash''" by code_simp
lemma lower_Card: "lower ''Card'' = ''card''" by code_simp
lemma lower_Qr: "lower ''Qr'' = ''qr''" by code_simp
lemma lower_QR: "lower ''QR'' = ''qr''" by code_simp

text \<open>\<open>capitalize\<close> is determined by the lower-case form, and determines it.\<close>

lemma capitalize_of_lower:
  "lower s = ''cash'' \<Longrightarrow> capitalize s = ''Cash''"
  "lower s = ''card'' \<Longrightarrow> capitalize s = ''Card''"
  "lower s = ''qr'' \<Longrightarrow> capitalize s = ''Qr''"
  by (metis capitalize_lower capitalize_cash, metis capitalize_lower capitalize_card,
      metis capitalize_lower capitalize_qr)

lemma lower_of_capitalize:
  "capitalize s = ''Cash'' \<Longrightarrow> lower s = ''cash''"
  "capitalize s = ''Card'' \<Longrightarrow> lower s = ''card''"
  "capitalize s = ''Qr'' \<Longrightarrow> lower s = ''qr''"
  "capitalize s = ''QR'' \<Longrightarrow> lower s = ''qr''"
  by (metis lower_capitalize lower_Cash, metis lower_capitalize lower_Card,
      metis lower_capitalize lower_Qr, metis lower_capitalize lower_QR)

subsection \<open>Creating a sale\<close>

text \<open>The loop over the items commits nothing, leaves the sales alone and raises only 404.\<close>

lemma create_sale_items_committed:
  "committed (snd (create_sale_items X sid its s)) = committed s"
  by (induction its arbitrary: s) (auto simp add: db_add_sale_item_def Let_def split: option.splits)

lemma create_sale_items_sale_table:
  "sale_table (pending (snd (create_sale_items X sid its s))) = sale_table (pending s)"
  by (induction its arbitrary: s) (auto simp add: db_add_sale_item_def Let_def split: option.splits)

lemma create_sale_items_error:
  "fst (create_sale_items X sid its s) = Inl e
   \<Longrightarrow> \<exists>pid. e = HTTPException 404 (ProductWithIDNotFound pid)"
  by (induction its arbitrary: s) (auto simp add: Let_def split: option.splits)

lemma create_sale_rejected:
  assumes "(if capitalize (SaleCreate.payment_method sale) = ''Qr'' then ''QR''
            else capitalize (SaleCreate.payment_method sale)) \<notin> set [''Cash'', ''Card'', ''QR'']"
  shows "get_db (create_sale X sale) d = (Inl (HTTPException 400 PaymentMethodInvalid), d)"
  using assms by (simp add: create_sale_def get_db_def Let_def)

lemma create_sale_accepted:
  assumes "(if capitalize (SaleCreate.payment_method sale) = ''Qr'' then ''QR''
            else capitalize (SaleCreate.payment_method sale)) = pm'"
    and "pm' \<in> set [''Cash'', ''Card'', ''QR'']"
  shows "(\<exists>pid. get_db (create_sale X sale) d
                 = (Inl (HTTPException 404 (ProductWithIDNotFound pid)), d))
       \<or> (\<exists>new_sale d'. get_db (create_sale X sale) d = (Inr new_sale, d')
             \<and> new_sale \<in> set (sale_table d')
             \<and> SaleDB.payment_method new_sale = pm')"
proof -
  define s0 :: session where "s0 = \<lparr>committed = d, pending = d\<rparr>"
  define new_sale where "new_sale =
     \<lparr>SaleDB.sale_id = autoincrement (map SaleDB.sale_id (sale_table (pending s0))),
      SaleDB.sale_datetime =
        (case SaleCreate.sale_datetime sale of Some t \<Rightarrow> t | None \<Rightarrow> current_timestamp X),
      SaleDB.total_amount = 0,
      SaleDB.payment_method = pm',
      SaleDB.notes = SaleCreate.notes sale\<rparr>"
  define res where "res = create_sale_items X (SaleDB.sale_id new_sale) (SaleCreate.items sale)
                            (db_add_sale new_sale s0)"
  have unfolded: "create_sale X sale s0 =
      (case res of (Inl e, s') \<Rightarrow> (Inl e, s') | (Inr u, s') \<Rightarrow> (Inr new_sale, db_commit s'))"
    using assms unfolding res_def new_sale_def
    by (auto simp add: create_sale_def Let_def)
  have com: "committed (snd res) = d"
    by (simp add: res_def create_sale_items_committed db_add_sale_def s0_def)
  have tab: "sale_table (pending (snd res)) = sale_table d @ [new_sale]"
    by (simp add: res_def create_sale_items_sale_table db_add_sale_def s0_def)
  show ?thesis
  proof (cases "fst res")
    case (Inl e)
    then obtain pid where "e = HTTPException 404 (ProductWithIDNotFound pid)"
      using create_sale_items_error [of X "SaleDB.sale_id new_sale" "SaleCreate.items sale"
          "db_add_sale new_sale s0" e]
      by (auto simp add: res_def)
    with Inl com unfolded have "get_db (create_sale X sale) d
        = (Inl (HTTPException 404 (ProductWithIDNotFound pid)), d)"
      by (cases res) (simp add: get_db_def s0_def)
    then show ?thesis by blast
  next
    case (Inr u)
    with com tab unfolded have "get_db (create_sale X sale) d
        = (Inr new_sale, pending (snd res))"
      by (cases res) (simp add: get_db_def s0_def db_commit_def)
    moreover have "new_sale \<in> set (sale_table (pending (snd res)))"
      by (simp add: tab)
    moreover have "SaleDB.payment_method new_sale = pm'"
      by (simp add: new_sale_def)
    ultimately show ?thesis by blast
  qed
qed

text \<open>
  A sale that raises leaves the store as it was: the sale row and the item rows added
  before the exception were never committed.
\<close>

lemma create_sale_atomic:
  assumes "get_db (create_sale X sale) d = (Inl e, d')"
  shows "d' = d"
proof (cases "(if capitalize (SaleCreate.payment_method sale) = ''Qr'' then ''QR''
               else capitalize (SaleCreate.payment_method sale)) \<in> set [''Cash'', ''Card'', ''QR'']")
  case True
  from create_sale_accepted [OF refl True, of X d] assms show ?thesis by auto
next
  case False
  from create_sale_rejected [OF False, of X d] assms show ?thesis by simp
qed

text \<open>
  C4. Creating a sale with the payment method \<open>s\<close>: when the lower-case form of \<open>s\<close> is none
  of \<open>cash\<close>, \<open>card\<close>, \<open>qr\<close> the call fails with status 400 and the store is unchanged; when
  it is one of them the payment check passes, so that the call either fails on a missing
  product (404) or stores a sale whose payment method is exactly \<open>Cash\<close>, \<open>Card\<close> or
  \<open>QR\<close> respectively.
\<close>

theorem create_sale_payment_method:
  "(lower (SaleCreate.payment_method sale) \<notin> {''cash'', ''card'', ''qr''} \<longrightarrow>
      get_db (create_sale X sale) d = (Inl (HTTPException 400 PaymentMethodInvalid), d))
   \<and> (lower (SaleCreate.payment_method sale) \<in> {''cash'', ''card'', ''qr''} \<longrightarrow>
        (\<exists>pid. get_db (create_sale X sale) d
                 = (Inl (HTTPException 404 (ProductWithIDNotFound pid)), d))
        \<or> (\<exists>new_sale d'. get_db (create_sale X sale) d = (Inr new_sale, d')
              \<and> new_sale \<in> set (sale_table d')
              \<and> SaleDB.payment_method new_sale =
                  (if lower (SaleCreate.payment_method sale) = ''cash'' then ''Cash''
                   else if lower (SaleCreate.payment_method sale) = ''card'' then ''Card''
                   else ''QR'')))"
proof (intro conjI impI)
  let ?pm = "SaleCreate.payment_method sale"
  let ?n = "if capitalize ?pm = ''Qr'' then ''QR'' else capitalize ?pm"
  {
    assume no: "lower ?pm \<notin> {''cash'', ''card'', ''qr''}"
    have "?n \<notin> set [''Cash'', ''Card'', ''QR'']"
    proof
      assume "?n \<in> set [''Cash'', ''Card'', ''QR'']"
      then have "capitalize ?pm = ''Cash'' \<or> capitalize ?pm = ''Card''
                 \<or> capitalize ?pm = ''Qr'' \<or> capitalize ?pm = ''QR''"
        by (auto split: if_splits)
      then have "lower ?pm = ''cash'' \<or> lower ?pm = ''card'' \<or> lower ?pm = ''qr''"
        using lower_of_capitalize [of ?pm] by blast
      with no show False by simp
    qed
    then show "get_db (create_sale X sale) d = (Inl (HTTPException 400 PaymentMethodInvalid), d)"
      by (rule create_sale_rejected)
  }
  {
    assume yes: "lower ?pm \<in> {''cash'', ''card'', ''qr''}"
    let ?canon = "if lower ?pm = ''cash'' then ''Cash''
                  else if lower ?pm = ''card'' then ''Card'' else ''QR''"
    have n: "?n = ?canon"
      using yes capitalize_of_lower [of ?pm] by auto
    have "?canon \<in> set [''Cash'', ''Card'', ''QR'']" by simp
    from create_sale_accepted [OF n this, of X d]
    show "(\<exists>pid. get_db (create_sale X sale) d
                 = (Inl (HTTPException 404 (ProductWithIDNotFound pid)), d))
        \<or> (\<exists>new_sale d'. get_db (create_sale X sale) d = (Inr new_sale, d')
              \<and> new_sale \<in> set (sale_table d')
              \<and> SaleDB.payment_method new_sale = ?canon)" .
  }
qed

theorem create_sale_payment_method_witness:
  "lower ''bitcoin'' \<notin> {''cash'', ''card'', ''qr''}
   \<and> get_db (create_sale example_externals (sale_request ''bitcoin'' [sale_item_request 1 2 None]))
         shop_db
       = (Inl (HTTPException 400 PaymentMethodInvalid), shop_db)
   \<and> lower ''cAsH'' \<in> {''cash'', ''card'', ''qr''}
   \<and> get_db (create_sale example_externals (sale_request ''cAsH'' [sale_item_request 1 2 None]))
         shop_db
       = (Inr (sale_row ''Cash''),
          shop_db\<lparr>sale_table := [sale_row ''Cash''],
                  sale_item_table := [sale_item_row 1 1 2 (25 / 2)]\<rparr>)
   \<and> SaleDB.payment_method (sale_row ''Cash'') = ''Cash''"
proof -
  have bitcoin: "lower ''bitcoin'' = ''bitcoin''" by code_simp
  have cash: "lower ''cAsH'' = ''cash''" by code_simp
  have accepted:
    "get_db (create_sale example_externals (sale_request ''cAsH'' [sale_item_request 1 2 None]))
         shop_db
       = (Inr (sale_row ''Cash''),
          shop_db\<lparr>sale_table := [sale_row ''Cash''],
                  sale_item_table := [sale_item_row 1 1 2 (25 / 2)]\<rparr>)"
    by code_simp
  have pm: "SaleCreate.payment_method (sale_request ''bitcoin'' [sale_item_request 1 2 None])
              = ''bitcoin''"
    by (simp add: sale_request_def)
  show ?thesis
    using create_sale_payment_method
        [of "sale_request ''bitcoin'' [sale_item_request 1 2 None]" example_externals shop_db]
      create_sale_payment_method
        [of "sale_request ''cAsH'' [sale_item_request 1 2 None]" example_externals shop_db]
    by (simp add: pm bitcoin cash accepted sale_row_def)
qed

subsection \<open>The unit price of a stored item\<close>





text \<open>A column of two decimals cannot hold 35.555, however the store rounds.\<close>

lemma hundredths_not_35555:
  assumes "decimal_10_2 X (7111 / 200) = of_int k / 100"
  shows "decimal_10_2 X (7111 / 200) \<noteq> 7111 / 200"
proof
  assume "decimal_10_2 X (7111 / 200) = 7111 / 200"
  with assms have "(of_int k :: rat) / 100 = 7111 / 200" by simp
  then have "(of_int (2 * k) :: rat) = of_int 7111" by simp
  then have "2 * k = 7111" by (simp only: of_int_eq_iff)
  then show False by presburger
qed




text \<open>
  C1, at a request with two items for the same product. Product 1 exists; the request is
  accepted, and the sale is stored with both items.
\<close>

theorem create_sale_duplicate_product_accepted:
  "get_db (create_sale example_externals
       (sale_request ''cash'' [sale_item_request 1 1 None, sale_item_request 1 2 None])) shop_db
     = (Inr (sale_row ''Cash''),
        shop_db\<lparr>sale_table := [sale_row ''Cash''],
                sale_item_table := [sale_item_row 1 1 1 (25 / 2), sale_item_row 2 1 2 (25 / 2)]\<rparr>)"
  by code_simp

subsection \<open>Creating a stock-in\<close>

text \<open>
  The validation loop stops at the first item, in the order of the request, whose product
  the store does not have.
\<close>

lemma validate_products_missing:
  "find (\<lambda>i. find (\<lambda>r. ProductDB.product_id r = StockInItemCreate.product_id i)
                 (product_table (pending s)) = None) its = Some missing
   \<Longrightarrow> validate_products its s
         = Inl (HTTPException 404 (StockInProductNotFound (StockInItemCreate.product_id missing)))"
  by (induction its) (auto split: option.splits if_splits)

text \<open>
  C3. When some item of a stock-in request refers to a product the store does not have,
  the call fails with status 404 and the detail names the product of the first such item.
  The exception leaves the handler with the session as it was opened, so that neither the
  stock-in row nor any item row was added, and the store is unchanged.
\<close>

theorem create_stock_in_missing_product:
  assumes "item \<in> set (StockInCreate.items stock_in)"
    and "find (\<lambda>r. ProductDB.product_id r = StockInItemCreate.product_id item) (product_table d)
           = None"
  shows "\<exists>missing.
           find (\<lambda>i. find (\<lambda>r. ProductDB.product_id r = StockInItemCreate.product_id i)
                         (product_table d) = None) (StockInCreate.items stock_in) = Some missing
         \<and> create_stock_in X stock_in \<lparr>committed = d, pending = d\<rparr>
             = (Inl (HTTPException 404 (StockInProductNotFound (StockInItemCreate.product_id missing))),
                \<lparr>committed = d, pending = d\<rparr>)
         \<and> get_db (create_stock_in X stock_in) d
             = (Inl (HTTPException 404 (StockInProductNotFound (StockInItemCreate.product_id missing))), d)"
proof -
  let ?absent = "\<lambda>i. find (\<lambda>r. ProductDB.product_id r = StockInItemCreate.product_id i)
                         (product_table d) = None"
  from assms have "find ?absent (StockInCreate.items stock_in) \<noteq> None"
    by (auto simp add: find_None_iff)
  then obtain missing where
    first: "find ?absent (StockInCreate.items stock_in) = Some missing"
    by blast
  have "validate_products (StockInCreate.items stock_in) \<lparr>committed = d, pending = d\<rparr>
          = Inl (HTTPException 404 (StockInProductNotFound (StockInItemCreate.product_id missing)))"
    using first by (intro validate_products_missing) simp
  then have
    "create_stock_in X stock_in \<lparr>committed = d, pending = d\<rparr>
       = (Inl (HTTPException 404 (StockInProductNotFound (StockInItemCreate.product_id missing))),
          \<lparr>committed = d, pending = d\<rparr>)"
    by (simp add: create_stock_in_def)
  with first show ?thesis
    by (auto simp add: get_db_def)
qed

theorem create_stock_in_missing_product_witness:
  "stock_in_item_request 9 5 3 \<in> set (StockInCreate.items (stock_in_request
       [stock_in_item_request 1 4 2, stock_in_item_request 9 5 3, stock_in_item_request 8 1 1]))
   \<and> find (\<lambda>r. ProductDB.product_id r = StockInItemCreate.product_id (stock_in_item_request 9 5 3))
        (product_table shop_db) = None
   \<and> find (\<lambda>i. find (\<lambda>r. ProductDB.product_id r = StockInItemCreate.product_id i)
                   (product_table shop_db) = None)
        (StockInCreate.items (stock_in_request
          [stock_in_item_request 1 4 2, stock_in_item_request 9 5 3, stock_in_item_request 8 1 1]))
       = Some (stock_in_item_request 9 5 3)
   \<and> get_db (create_stock_in example_externals (stock_in_request
          [stock_in_item_request 1 4 2, stock_in_item_request 9 5 3, stock_in_item_request 8 1 1]))
        shop_db
       = (Inl (HTTPException 404 (StockInProductNotFound 9)), shop_db)"
proof -
  let ?req = "stock_in_request
       [stock_in_item_request 1 4 2, stock_in_item_request 9 5 3, stock_in_item_request 8 1 1]"
  have member: "stock_in_item_request 9 5 3 \<in> set (StockInCreate.items ?req)"
    by (simp add: stock_in_request_def)
  have absent:
    "find (\<lambda>r. ProductDB.product_id r = StockInItemCreate.product_id (stock_in_item_request 9 5 3))
        (product_table shop_db) = None"
    by (simp add: shop_db_def empty_database_def product_tea_def product_cup_def
        stock_in_item_request_def)
  have first:
    "find (\<lambda>i. find (\<lambda>r. ProductDB.product_id r = StockInItemCreate.product_id i)
                   (product_table shop_db) = None) (StockInCreate.items ?req)
       = Some (stock_in_item_request 9 5 3)"
    by (simp add: shop_db_def empty_database_def product_tea_def product_cup_def
        stock_in_item_request_def stock_in_request_def)
  have pid: "StockInItemCreate.product_id (stock_in_item_request 9 5 3) = 9"
    by (simp add: stock_in_item_request_def)
  from create_stock_in_missing_product [OF member absent, of example_externals]
  have "get_db (create_stock_in example_externals ?req) shop_db
       = (Inl (HTTPException 404 (StockInProductNotFound 9)), shop_db)"
    by (auto simp add: first pid)
  with member absent first show ?thesis by simp
qed

subsection \<open>Creating a product\<close>

text \<open>
  A body that leaves \<open>reorder_level\<close> out gives a product with \<open>reorder_level\<close> 10, and the
  product is stored.
\<close>

lemma post_products_default_reorder_level:
  assumes "ProductCreate_body.reorder_level body = None"
    and "post_products body d = (Inr p, d')"
  shows "ProductDB.reorder_level p = 10 \<and> product_table d' = product_table d @ [p]"
  using assms
  by (auto simp add: post_products_def get_db_def create_product_def ProductCreate_model_def
      Let_def db_commit_def db_add_product_def split: option.splits)

text \<open>
  The price of the body has no part in the outcome but as the price of the stored row: a
  body that is accepted is accepted with any other price.
\<close>

lemma post_products_any_price:
  assumes "post_products body d = (Inr p, d')"
  shows "post_products (body\<lparr>ProductCreate_body.price := x\<rparr>) d
           = (Inr (p\<lparr>ProductDB.price := x\<rparr>),
              d\<lparr>product_table := product_table d @ [p\<lparr>ProductDB.price := x\<rparr>]\<rparr>)"
  using assms
  by (auto simp add: post_products_def get_db_def create_product_def ProductCreate_model_def
      Let_def db_commit_def db_add_product_def split: option.splits)

text \<open>
  C5, at a body whose price is 0 and at one whose price is negative, both without
  \<open>reorder_level\<close>: the product is created and stored with that price (and with
  \<open>reorder_level\<close> 10).
\<close>

theorem post_products_nonpositive_price_accepted:
  "post_products (sample_body 0) empty_database
     = (Inr (sample_row 0), empty_database\<lparr>product_table := [sample_row 0]\<rparr>)
   \<and> post_products (sample_body (- 5)) empty_database
     = (Inr (sample_row (- 5)), empty_database\<lparr>product_table := [sample_row (- 5)]\<rparr>)
   \<and> ProductDB.price (sample_row 0) = 0
   \<and> ProductDB.price (sample_row (- 5)) < 0
   \<and> ProductDB.reorder_level (sample_row 0) = 10"
proof -
  have zero: "post_products (sample_body 0) empty_database
     = (Inr (sample_row 0), empty_database\<lparr>product_table := [sample_row 0]\<rparr>)"
    by code_simp
  have negative: "post_products (sample_body (- 5)) empty_database
     = (Inr (sample_row (- 5)), empty_database\<lparr>product_table := [sample_row (- 5)]\<rparr>)"
    by code_simp
  show ?thesis
    using zero negative by (simp add: sample_row_def)
qed

subsection \<open>The envelope of a list call\<close>

text \<open>The integer division of the handlers is the rounded-up quotient.\<close>

lemma total_pages_ceiling:
  fixes k l :: int
  assumes "1 \<le> l"
  shows "(k + l - 1) div l = \<lceil>real_of_int k / real_of_int l\<rceil>"
proof -
  define m where "m = (k + l - 1) div l"
  have l: "0 < l" using assms by simp
  have split: "k + l - 1 = m * l + (k + l - 1) mod l"
    unfolding m_def by simp
  have "0 \<le> (k + l - 1) mod l" and "(k + l - 1) mod l < l"
    using l by simp_all
  with split have "m * l \<le> k + l - 1" and "k + l - 1 < m * l + l"
    by linarith+
  then have lo: "(m - 1) * l < k" and hi: "k \<le> m * l"
    by (simp_all add: algebra_simps)
  have "real_of_int m - 1 < real_of_int k / real_of_int l"
  proof -
    from lo have "real_of_int ((m - 1) * l) < real_of_int k" by (simp only: of_int_less_iff)
    then show ?thesis using l by (simp add: pos_less_divide_eq)
  qed
  moreover have "real_of_int k / real_of_int l \<le> real_of_int m"
  proof -
    from hi have "real_of_int k \<le> real_of_int (m * l)" by (simp only: of_int_le_iff)
    then show ?thesis using l by (simp add: pos_divide_le_eq)
  qed
  ultimately have "\<lceil>real_of_int k / real_of_int l\<rceil> = m"
    by (intro ceiling_unique) simp_all
  then show ?thesis by (simp add: m_def)
qed

lemma page_length:
  assumes "0 \<le> l"
  shows "int (length (offset_limit start l rows)) \<le> l"
  using assms by (simp add: offset_limit_def)

text \<open>The envelope every list handler builds, for the rows of the page and the total.\<close>

lemma envelope_okI:
  assumes "PaginationParams_valid p"
  shows "envelope_ok p
     \<lparr>items = offset_limit start (PaginationParams.limit p) rows,
      total = int n,
      page = PaginationParams.page p,
      limit = PaginationParams.limit p,
      total_pages = (int n + PaginationParams.limit p - 1) div PaginationParams.limit p,
      has_next = (PaginationParams.page p
                    < (int n + PaginationParams.limit p - 1) div PaginationParams.limit p),
      has_prev = (PaginationParams.page p > 1)\<rparr>"
proof -
  from assms have l: "1 \<le> PaginationParams.limit p"
    by (simp add: PaginationParams_valid_def)
  then have "0 \<le> PaginationParams.limit p" by simp
  from page_length [OF this] total_pages_ceiling [OF l, of "int n"]
  show ?thesis by (simp add: envelope_ok_def)
qed

lemma get_all_categories_envelope:
  assumes "PaginationParams_valid p" and "get_all_categories X p d = Inr r"
  shows "envelope_ok p r"
  using assms(2) envelope_okI [OF assms(1)]
  by (auto simp add: get_all_categories_def Let_def split: if_splits)

lemma get_all_products_envelope:
  assumes "PaginationParams_valid p" and "get_all_products X p d = Inr r"
  shows "envelope_ok p r"
  using assms(2) envelope_okI [OF assms(1)]
  by (auto simp add: get_all_products_def Let_def split: if_splits)

lemma get_all_sales_envelope:
  assumes "PaginationParams_valid p" and "get_all_sales X p d = Inr r"
  shows "envelope_ok p r"
  using assms(2) envelope_okI [OF assms(1)]
  by (auto simp add: get_all_sales_def and_then_def Let_def split: if_splits sum.splits)

lemma get_all_stock_in_envelope:
  assumes "PaginationParams_valid p" and "get_all_stock_in X p d = Inr r"
  shows "envelope_ok p r"
  using assms(2) envelope_okI [OF assms(1)]
  by (auto simp add: get_all_stock_in_def and_then_def Let_def split: if_splits sum.splits)

lemma get_all_inventory_movements_envelope:
  assumes "PaginationParams_valid p" and "get_all_inventory_movements X p d = Inr r"
  shows "envelope_ok p r"
  using assms(2) envelope_okI [OF assms(1)]
  by (auto simp add: get_all_inventory_movements_def and_then_def Let_def
      split: if_splits sum.splits)

lemma get_product_stock_report_envelope:
  assumes "PaginationParams_valid p" and "get_product_stock_report X p d = Inr r"
  shows "envelope_ok p r"
  using assms(2) envelope_okI [OF assms(1)]
  by (auto simp add: get_product_stock_report_def Let_def split: if_splits)

lemma get_profitability_report_envelope:
  assumes "PaginationParams_valid p" and "get_profitability_report X p d = Inr r"
  shows "envelope_ok p r"
  using assms(2) envelope_okI [OF assms(1)]
  by (auto simp add: get_profitability_report_def and_then_def Let_def
      split: if_splits sum.splits)

text \<open>
  C2. For each of the seven list handlers: whenever the parameters satisfy the declared
  bounds (\<open>page \<ge> 1\<close>, \<open>1 \<le> limit \<le> 100\<close>) and the call returns an envelope, the envelope
  repeats the page and limit, has \<open>total_pages = ceil(total / limit)\<close>,
  \<open>has_next = (page < total_pages)\<close>, \<open>has_prev = (page > 1)\<close>, and at most \<open>limit\<close> items.
\<close>

theorem paginated_envelope:
  "(PaginationParams_valid p1 \<and> get_all_categories X p1 d = Inr r1 \<longrightarrow> envelope_ok p1 r1)
   \<and> (PaginationParams_valid p2 \<and> get_all_products X p2 d = Inr r2 \<longrightarrow> envelope_ok p2 r2)
   \<and> (PaginationParams_valid p3 \<and> get_all_sales X p3 d = Inr r3 \<longrightarrow> envelope_ok p3 r3)
   \<and> (PaginationParams_valid p4 \<and> get_all_stock_in X p4 d = Inr r4 \<longrightarrow> envelope_ok p4 r4)
   \<and> (PaginationParams_valid p5 \<and> get_all_inventory_movements X p5 d = Inr r5
        \<longrightarrow> envelope_ok p5 r5)
   \<and> (PaginationParams_valid p6 \<and> get_product_stock_report X p6 d = Inr r6
        \<longrightarrow> envelope_ok p6 r6)
   \<and> (PaginationParams_valid p7 \<and> get_profitability_report X p7 d = Inr r7
        \<longrightarrow> envelope_ok p7 r7)"
  using get_all_categories_envelope [of p1 X d r1] get_all_products_envelope [of p2 X d r2]
    get_all_sales_envelope [of p3 X d r3] get_all_stock_in_envelope [of p4 X d r4]
    get_all_inventory_movements_envelope [of p5 X d r5]
    get_product_stock_report_envelope [of p6 X d r6]
    get_profitability_report_envelope [of p7 X d r7]
  by blast

theorem paginated_envelope_witness:
  "PaginationParams_valid
     \<lparr>PaginationParams.page = 2, PaginationParams.limit = 1, CategorySearchParams.search = None\<rparr>
   \<and> get_all_categories example_externals
     \<lparr>PaginationParams.page = 2, PaginationParams.limit = 1, CategorySearchParams.search = None\<rparr> full_db
     = Inr \<lparr>items = [category_row 2 ''Snacks''], total = 3, page = 2, limit = 1, total_pages = 3,
          has_next = True, has_prev = True\<rparr>
   \<and> envelope_ok
     \<lparr>PaginationParams.page = 2, PaginationParams.limit = 1, CategorySearchParams.search = None\<rparr>
     \<lparr>items = [category_row 2 ''Snacks''], total = 3, page = 2, limit = 1, total_pages = 3,
          has_next = True, has_prev = True\<rparr>
   \<and> PaginationParams_valid
     \<lparr>PaginationParams.page = 2, PaginationParams.limit = 1, ProductSearchParams.search = None,
      ProductSearchParams.category_id = None, min_price = Some 1, max_price = None\<rparr>
   \<and> get_all_products example_externals
     \<lparr>PaginationParams.page = 2, PaginationParams.limit = 1, ProductSearchParams.search = None,
      ProductSearchParams.category_id = None, min_price = Some 1, max_price = None\<rparr> full_db
     = Inr \<lparr>items = [product_cup], total = 2, page = 2, limit = 1, total_pages = 2,
          has_next = False, has_prev = True\<rparr>
   \<and> envelope_ok
     \<lparr>PaginationParams.page = 2, PaginationParams.limit = 1, ProductSearchParams.search = None,
      ProductSearchParams.category_id = None, min_price = Some 1, max_price = None\<rparr>
     \<lparr>items = [product_cup], total = 2, page = 2, limit = 1, total_pages = 2,
          has_next = False, has_prev = True\<rparr>
   \<and> PaginationParams_valid
     \<lparr>PaginationParams.page = 1, PaginationParams.limit = 10, SaleSearchParams.search = None,
      SaleSearchParams.payment_method = Some ''Cash'', SaleSearchParams.start_date = None,
      SaleSearchParams.end_date = Some ''2024-01-02''\<rparr>
   \<and> get_all_sales example_externals
     \<lparr>PaginationParams.page = 1, PaginationParams.limit = 10, SaleSearchParams.search = None,
      SaleSearchParams.payment_method = Some ''Cash'', SaleSearchParams.start_date = None,
      SaleSearchParams.end_date = Some ''2024-01-02''\<rparr> full_db
     = Inr \<lparr>items = [sale_at 2 900, sale_at 1 500], total = 2, page = 1, limit = 10, total_pages = 1,
          has_next = False, has_prev = False\<rparr>
   \<and> envelope_ok
     \<lparr>PaginationParams.page = 1, PaginationParams.limit = 10, SaleSearchParams.search = None,
      SaleSearchParams.payment_method = Some ''Cash'', SaleSearchParams.start_date = None,
      SaleSearchParams.end_date = Some ''2024-01-02''\<rparr>
     \<lparr>items = [sale_at 2 900, sale_at 1 500], total = 2, page = 1, limit = 10, total_pages = 1,
          has_next = False, has_prev = False\<rparr>
   \<and> PaginationParams_valid
     \<lparr>PaginationParams.page = 3, PaginationParams.limit = 5, StockInSearchParams.search = Some ''PO-7'',
      StockInSearchParams.start_date = None, StockInSearchParams.end_date = None\<rparr>
   \<and> get_all_stock_in example_externals
     \<lparr>PaginationParams.page = 3, PaginationParams.limit = 5, StockInSearchParams.search = Some ''PO-7'',
      StockInSearchParams.start_date = None, StockInSearchParams.end_date = None\<rparr> full_db
     = Inr \<lparr>items = ([] :: StockInDB list), total = 1, page = 3, limit = 5, total_pages = 1,
          has_next = False, has_prev = True\<rparr>
   \<and> envelope_ok
     \<lparr>PaginationParams.page = 3, PaginationParams.limit = 5, StockInSearchParams.search = Some ''PO-7'',
      StockInSearchParams.start_date = None, StockInSearchParams.end_date = None\<rparr>
     \<lparr>items = ([] :: StockInDB list), total = 1, page = 3, limit = 5, total_pages = 1,
          has_next = False, has_prev = True\<rparr>
   \<and> PaginationParams_valid
     \<lparr>PaginationParams.page = 1, PaginationParams.limit = 1,
      InventoryMovementSearchParams.product_id = Some 7,
      InventoryMovementSearchParams.movement_type = None,
      InventoryMovementSearchParams.start_date = None,
      InventoryMovementSearchParams.end_date = None\<rparr>
   \<and> get_all_inventory_movements example_externals
     \<lparr>PaginationParams.page = 1, PaginationParams.limit = 1,
      InventoryMovementSearchParams.product_id = Some 7,
      InventoryMovementSearchParams.movement_type = None,
      InventoryMovementSearchParams.start_date = None,
      InventoryMovementSearchParams.end_date = None\<rparr> full_db
     = Inr \<lparr>items = [movement_2], total = 2, page = 1, limit = 1, total_pages = 2,
          has_next = True, has_prev = False\<rparr>
   \<and> envelope_ok
     \<lparr>PaginationParams.page = 1, PaginationParams.limit = 1,
      InventoryMovementSearchParams.product_id = Some 7,
      InventoryMovementSearchParams.movement_type = None,
      InventoryMovementSearchParams.start_date = None,
      InventoryMovementSearchParams.end_date = None\<rparr>
     \<lparr>items = [movement_2], total = 2, page = 1, limit = 1, total_pages = 2,
          has_next = True, has_prev = False\<rparr>
   \<and> PaginationParams_valid
     \<lparr>PaginationParams.page = 1, PaginationParams.limit = 100,
      ProductStockSearchParams.search = None, productFilter = None\<rparr>
   \<and> get_product_stock_report example_externals
     \<lparr>PaginationParams.page = 1, PaginationParams.limit = 100,
      ProductStockSearchParams.search = None, productFilter = None\<rparr> full_db
     = Inr \<lparr>items = [stock_view_row 2 ''Cup'' 1, stock_view_row 1 ''Tea'' 0], total = 2, page = 1,
          limit = 100, total_pages = 1, has_next = False, has_prev = False\<rparr>
   \<and> envelope_ok
     \<lparr>PaginationParams.page = 1, PaginationParams.limit = 100,
      ProductStockSearchParams.search = None, productFilter = None\<rparr>
     \<lparr>items = [stock_view_row 2 ''Cup'' 1, stock_view_row 1 ''Tea'' 0], total = 2, page = 1,
          limit = 100, total_pages = 1, has_next = False, has_prev = False\<rparr>
   \<and> PaginationParams_valid
     \<lparr>PaginationParams.page = 2, PaginationParams.limit = 1,
      ProfitabilityReportSearchParams.search = None,
      ProfitabilityReportSearchParams.product_id = None,
      ProfitabilityReportSearchParams.start_date = None,
      ProfitabilityReportSearchParams.end_date = None\<rparr>
   \<and> get_profitability_report example_externals
     \<lparr>PaginationParams.page = 2, PaginationParams.limit = 1,
      ProfitabilityReportSearchParams.search = None,
      ProfitabilityReportSearchParams.product_id = None,
      ProfitabilityReportSearchParams.start_date = None,
      ProfitabilityReportSearchParams.end_date = None\<rparr> full_db
     = Inr \<lparr>items = [profit_row 1 500 10 4], total = 2, page = 2,
          limit = 1, total_pages = 2, has_next = False, has_prev = True\<rparr>
   \<and> envelope_ok
     \<lparr>PaginationParams.page = 2, PaginationParams.limit = 1,
      ProfitabilityReportSearchParams.search = None,
      ProfitabilityReportSearchParams.product_id = None,
      ProfitabilityReportSearchParams.start_date = None,
      ProfitabilityReportSearchParams.end_date = None\<rparr>
     \<lparr>items = [profit_row 1 500 10 4], total = 2, page = 2,
          limit = 1, total_pages = 2, has_next = False, has_prev = True\<rparr>"
proof -
  have categories_valid: "PaginationParams_valid
     \<lparr>PaginationParams.page = 2, PaginationParams.limit = 1, CategorySearchParams.search = None\<rparr>"
    by (simp add: PaginationParams_valid_def)
  have categories_run: "get_all_categories example_externals
     \<lparr>PaginationParams.page = 2, PaginationParams.limit = 1, CategorySearchParams.search = None\<rparr> full_db
     = Inr \<lparr>items = [category_row 2 ''Snacks''], total = 3, page = 2, limit = 1, total_pages = 3,
          has_next = True, has_prev = True\<rparr>"
    by code_simp
  have products_valid: "PaginationParams_valid
     \<lparr>PaginationParams.page = 2, PaginationParams.limit = 1, ProductSearchParams.search = None,
      ProductSearchParams.category_id = None, min_price = Some 1, max_price = None\<rparr>"
    by (simp add: PaginationParams_valid_def)
  have products_run: "get_all_products example_externals
     \<lparr>PaginationParams.page = 2, PaginationParams.limit = 1, ProductSearchParams.search = None,
      ProductSearchParams.category_id = None, min_price = Some 1, max_price = None\<rparr> full_db
     = Inr \<lparr>items = [product_cup], total = 2, page = 2, limit = 1, total_pages = 2,
          has_next = False, has_prev = True\<rparr>"
    by code_simp
  have sales_valid: "PaginationParams_valid
     \<lparr>PaginationParams.page = 1, PaginationParams.limit = 10, SaleSearchParams.search = None,
      SaleSearchParams.payment_method = Some ''Cash'', SaleSearchParams.start_date = None,
      SaleSearchParams.end_date = Some ''2024-01-02''\<rparr>"
    by (simp add: PaginationParams_valid_def)
  have sales_run: "get_all_sales example_externals
     \<lparr>PaginationParams.page = 1, PaginationParams.limit = 10, SaleSearchParams.search = None,
      SaleSearchParams.payment_method = Some ''Cash'', SaleSearchParams.start_date = None,
      SaleSearchParams.end_date = Some ''2024-01-02''\<rparr> full_db
     = Inr \<lparr>items = [sale_at 2 900, sale_at 1 500], total = 2, page = 1, limit = 10, total_pages = 1,
          has_next = False, has_prev = False\<rparr>"
    by code_simp
  have stock_in_valid: "PaginationParams_valid
     \<lparr>PaginationParams.page = 3, PaginationParams.limit = 5, StockInSearchParams.search = Some ''PO-7'',
      StockInSearchParams.start_date = None, StockInSearchParams.end_date = None\<rparr>"
    by (simp add: PaginationParams_valid_def)
  have stock_in_run: "get_all_stock_in example_externals
     \<lparr>PaginationParams.page = 3, PaginationParams.limit = 5, StockInSearchParams.search = Some ''PO-7'',
      StockInSearchParams.start_date = None, StockInSearchParams.end_date = None\<rparr> full_db
     = Inr \<lparr>items = ([] :: StockInDB list), total = 1, page = 3, limit = 5, total_pages = 1,
          has_next = False, has_prev = True\<rparr>"
    by code_simp
  have movements_valid: "PaginationParams_valid
     \<lparr>PaginationParams.page = 1, PaginationParams.limit = 1,
      InventoryMovementSearchParams.product_id = Some 7,
      InventoryMovementSearchParams.movement_type = None,
      InventoryMovementSearchParams.start_date = None,
      InventoryMovementSearchParams.end_date = None\<rparr>"
    by (simp add: PaginationParams_valid_def)
  have movements_run: "get_all_inventory_movements example_externals
     \<lparr>PaginationParams.page = 1, PaginationParams.limit = 1,
      InventoryMovementSearchParams.product_id = Some 7,
      InventoryMovementSearchParams.movement_type = None,
      InventoryMovementSearchParams.start_date = None,
      InventoryMovementSearchParams.end_date = None\<rparr> full_db
     = Inr \<lparr>items = [movement_2], total = 2, page = 1, limit = 1, total_pages = 2,
          has_next = True, has_prev = False\<rparr>"
    by code_simp
  have stock_report_valid: "PaginationParams_valid
     \<lparr>PaginationParams.page = 1, PaginationParams.limit = 100,
      ProductStockSearchParams.search = None, productFilter = None\<rparr>"
    by (simp add: PaginationParams_valid_def)
  have stock_report_run: "get_product_stock_report example_externals
     \<lparr>PaginationParams.page = 1, PaginationParams.limit = 100,
      ProductStockSearchParams.search = None, productFilter = None\<rparr> full_db
     = Inr \<lparr>items = [stock_view_row 2 ''Cup'' 1, stock_view_row 1 ''Tea'' 0], total = 2, page = 1,
          limit = 100, total_pages = 1, has_next = False, has_prev = False\<rparr>"
    by code_simp
  have profit_report_valid: "PaginationParams_valid
     \<lparr>PaginationParams.page = 2, PaginationParams.limit = 1,
      ProfitabilityReportSearchParams.search = None,
      ProfitabilityReportSearchParams.product_id = None,
      ProfitabilityReportSearchParams.start_date = None,
      ProfitabilityReportSearchParams.end_date = None\<rparr>"
    by (simp add: PaginationParams_valid_def)
  have profit_report_run: "get_profitability_report example_externals
     \<lparr>PaginationParams.page = 2, PaginationParams.limit = 1,
      ProfitabilityReportSearchParams.search = None,
      ProfitabilityReportSearchParams.product_id = None,
      ProfitabilityReportSearchParams.start_date = None,
      ProfitabilityReportSearchParams.end_date = None\<rparr> full_db
     = Inr \<lparr>items = [profit_row 1 500 10 4], total = 2, page = 2,
          limit = 1, total_pages = 2, has_next = False, has_prev = True\<rparr>"
    by code_simp
  note envelope = paginated_envelope [where X = example_externals and d = full_db]
  from envelope [where ?p1.0 = "\<lparr>PaginationParams.page = 2, PaginationParams.limit = 1, CategorySearchParams.search = None\<rparr>"
      and ?r1.0 = "\<lparr>items = [category_row 2 ''Snacks''], total = 3, page = 2, limit = 1, total_pages = 3,
          has_next = True, has_prev = True\<rparr>"]
  have categories_ok: "envelope_ok
     \<lparr>PaginationParams.page = 2, PaginationParams.limit = 1, CategorySearchParams.search = None\<rparr>
     \<lparr>items = [category_row 2 ''Snacks''], total = 3, page = 2, limit = 1, total_pages = 3,
          has_next = True, has_prev = True\<rparr>"
    using categories_valid categories_run by blast
  from envelope [where ?p2.0 = "\<lparr>PaginationParams.page = 2, PaginationParams.limit = 1, ProductSearchParams.search = None,
      ProductSearchParams.category_id = None, min_price = Some 1, max_price = None\<rparr>"
      and ?r2.0 = "\<lparr>items = [product_cup], total = 2, page = 2, limit = 1, total_pages = 2,
          has_next = False, has_prev = True\<rparr>"]
  have products_ok: "envelope_ok
     \<lparr>PaginationParams.page = 2, PaginationParams.limit = 1, ProductSearchParams.search = None,
      ProductSearchParams.category_id = None, min_price = Some 1, max_price = None\<rparr>
     \<lparr>items = [product_cup], total = 2, page = 2, limit = 1, total_pages = 2,
          has_next = False, has_prev = True\<rparr>"
    using products_valid products_run by blast
  from envelope [where ?p3.0 = "\<lparr>PaginationParams.page = 1, PaginationParams.limit = 10, SaleSearchParams.search = None,
      SaleSearchParams.payment_method = Some ''Cash'', SaleSearchParams.start_date = None,
      SaleSearchParams.end_date = Some ''2024-01-02''\<rparr>"
      and ?r3.0 = "\<lparr>items = [sale_at 2 900, sale_at 1 500], total = 2, page = 1, limit = 10, total_pages = 1,
          has_next = False, has_prev = False\<rparr>"]
  have sales_ok: "envelope_ok
     \<lparr>PaginationParams.page = 1, PaginationParams.limit = 10, SaleSearchParams.search = None,
      SaleSearchParams.payment_method = Some ''Cash'', SaleSearchParams.start_date = None,
      SaleSearchParams.end_date = Some ''2024-01-02''\<rparr>
     \<lparr>items = [sale_at 2 900, sale_at 1 500], total = 2, page = 1, limit = 10, total_pages = 1,
          has_next = False, has_prev = False\<rparr>"
    using sales_valid sales_run by blast
  from envelope [where ?p4.0 = "\<lparr>PaginationParams.page = 3, PaginationParams.limit = 5, StockInSearchParams.search = Some ''PO-7'',
      StockInSearchParams.start_date = None, StockInSearchParams.end_date = None\<rparr>"
      and ?r4.0 = "\<lparr>items = ([] :: StockInDB list), total = 1, page = 3, limit = 5, total_pages = 1,
          has_next = False, has_prev = True\<rparr>"]
  have stock_in_ok: "envelope_ok
     \<lparr>PaginationParams.page = 3, PaginationParams.limit = 5, StockInSearchParams.search = Some ''PO-7'',
      StockInSearchParams.start_date = None, StockInSearchParams.end_date = None\<rparr>
     \<lparr>items = ([] :: StockInDB list), total = 1, page = 3, limit = 5, total_pages = 1,
          has_next = False, has_prev = True\<rparr>"
    using stock_in_valid stock_in_run by blast
  from envelope [where ?p5.0 = "\<lparr>PaginationParams.page = 1, PaginationParams.limit = 1,
      InventoryMovementSearchParams.product_id = Some 7,
      InventoryMovementSearchParams.movement_type = None,
      InventoryMovementSearchParams.start_date = None,
      InventoryMovementSearchParams.end_date = None\<rparr>"
      and ?r5.0 = "\<lparr>items = [movement_2], total = 2, page = 1, limit = 1, total_pages = 2,
          has_next = True, has_prev = False\<rparr>"]
  have movements_ok: "envelope_ok
     \<lparr>PaginationParams.page = 1, PaginationParams.limit = 1,
      InventoryMovementSearchParams.product_id = Some 7,
      InventoryMovementSearchParams.movement_type = None,
      InventoryMovementSearchParams.start_date = None,
      InventoryMovementSearchParams.end_date = None\<rparr>
     \<lparr>items = [movement_2], total = 2, page = 1, limit = 1, total_pages = 2,
          has_next = True, has_prev = False\<rparr>"
    using movements_valid movements_run by blast
  from envelope [where ?p6.0 = "\<lparr>PaginationParams.page = 1, PaginationParams.limit = 100,
      ProductStockSearchParams.search = None, productFilter = None\<rparr>"
      and ?r6.0 = "\<lparr>items = [stock_view_row 2 ''Cup'' 1, stock_view_row 1 ''Tea'' 0], total = 2, page = 1,
          limit = 100, total_pages = 1, has_next = False, has_prev = False\<rparr>"]
  have stock_report_ok: "envelope_ok
     \<lparr>PaginationParams.page = 1, PaginationParams.limit = 100,
      ProductStockSearchParams.search = None, productFilter = None\<rparr>
     \<lparr>items = [stock_view_row 2 ''Cup'' 1, stock_view_row 1 ''Tea'' 0], total = 2, page = 1,
          limit = 100, total_pages = 1, has_next = False, has_prev = False\<rparr>"
    using stock_report_valid stock_report_run by blast
  from envelope [where ?p7.0 = "\<lparr>PaginationParams.page = 2, PaginationParams.limit = 1,
      ProfitabilityReportSearchParams.search = None,
      ProfitabilityReportSearchParams.product_id = None,
      ProfitabilityReportSearchParams.start_date = None,
      ProfitabilityReportSearchParams.end_date = None\<rparr>"
      and ?r7.0 = "\<lparr>items = [profit_row 1 500 10 4], total = 2, page = 2,
          limit = 1, total_pages = 2, has_next = False, has_prev = True\<rparr>"]
  have profit_report_ok: "envelope_ok
     \<lparr>PaginationParams.page = 2, PaginationParams.limit = 1,
      ProfitabilityReportSearchParams.search = None,
      ProfitabilityReportSearchParams.product_id = None,
      ProfitabilityReportSearchParams.start_date = None,
      ProfitabilityReportSearchParams.end_date = None\<rparr>
     \<lparr>items = [profit_row 1 500 10 4], total = 2, page = 2,
          limit = 1, total_pages = 2, has_next = False, has_prev = True\<rparr>"
    using profit_report_valid profit_report_run by blast
  show ?thesis
    using categories_valid categories_run categories_ok products_valid products_run products_ok sales_valid sales_run sales_ok stock_in_valid stock_in_run stock_in_ok movements_valid movements_run movements_ok stock_report_valid stock_report_run stock_report_ok profit_report_valid profit_report_run profit_report_ok
    by simp
qed

subsection \<open>An empty page\<close>

lemma get_all_categories_cases:
  "get_all_categories X p d =
     (if offset_limit ((PaginationParams.page p - 1) * PaginationParams.limit p)
            (PaginationParams.limit p)
            (order_by CategoryDB.category_id (categories_query X p d)) = []
         \<and> PaginationParams.page p = 1
      then Inl (HTTPException 404 CategoriesNotFound)
      else Inr \<lparr>items = offset_limit ((PaginationParams.page p - 1) * PaginationParams.limit p)
                     (PaginationParams.limit p)
                     (order_by CategoryDB.category_id (categories_query X p d)),
                total = int (length (categories_query X p d)),
                page = PaginationParams.page p,
                limit = PaginationParams.limit p,
                total_pages = (int (length (categories_query X p d)) + PaginationParams.limit p - 1)
                                div PaginationParams.limit p,
                has_next = (PaginationParams.page p
                   < (int (length (categories_query X p d)) + PaginationParams.limit p - 1)
                       div PaginationParams.limit p),
                has_prev = (PaginationParams.page p > 1)\<rparr>)"
  by (auto simp add: get_all_categories_def Let_def)

lemma get_all_products_cases:
  "get_all_products X p d =
     (if offset_limit ((PaginationParams.page p - 1) * PaginationParams.limit p)
            (PaginationParams.limit p)
            (order_by ProductDB.product_id (products_query X p d)) = []
         \<and> PaginationParams.page p = 1
      then Inl (HTTPException 404 ProductsNotFound)
      else Inr \<lparr>items = offset_limit ((PaginationParams.page p - 1) * PaginationParams.limit p)
                     (PaginationParams.limit p)
                     (order_by ProductDB.product_id (products_query X p d)),
                total = int (length (products_query X p d)),
                page = PaginationParams.page p,
                limit = PaginationParams.limit p,
                total_pages = (int (length (products_query X p d)) + PaginationParams.limit p - 1)
                                div PaginationParams.limit p,
                has_next = (PaginationParams.page p
                   < (int (length (products_query X p d)) + PaginationParams.limit p - 1)
                       div PaginationParams.limit p),
                has_prev = (PaginationParams.page p > 1)\<rparr>)"
  by (auto simp add: get_all_products_def Let_def)

text \<open>
  C6. For the list calls on categories and on products, with parameters inside the declared
  bounds: the call raises a 404 exactly when the requested page is 1 and the query gives no
  row for it; in every other case it returns an envelope with the rows of the page, so that
  a page after the first that has no rows gives an envelope with an empty item list.
\<close>

theorem empty_page_not_found:
  "(PaginationParams_valid pc \<longrightarrow>
      ((\<exists>dt. get_all_categories X pc d = Inl (HTTPException 404 dt))
         \<longleftrightarrow> (PaginationParams.page pc = 1
              \<and> offset_limit ((PaginationParams.page pc - 1) * PaginationParams.limit pc)
                    (PaginationParams.limit pc)
                    (order_by CategoryDB.category_id (categories_query X pc d)) = []))
      \<and> ((\<exists>e. get_all_categories X pc d = Inl e)
         \<longleftrightarrow> (\<exists>dt. get_all_categories X pc d = Inl (HTTPException 404 dt)))
      \<and> (1 < PaginationParams.page pc
           \<and> offset_limit ((PaginationParams.page pc - 1) * PaginationParams.limit pc)
                 (PaginationParams.limit pc)
                 (order_by CategoryDB.category_id (categories_query X pc d)) = []
          \<longrightarrow> (\<exists>r. get_all_categories X pc d = Inr r \<and> PaginatedResponse.items r = [])))
   \<and> (PaginationParams_valid pp \<longrightarrow>
      ((\<exists>dt. get_all_products X pp d = Inl (HTTPException 404 dt))
         \<longleftrightarrow> (PaginationParams.page pp = 1
              \<and> offset_limit ((PaginationParams.page pp - 1) * PaginationParams.limit pp)
                    (PaginationParams.limit pp)
                    (order_by ProductDB.product_id (products_query X pp d)) = []))
      \<and> ((\<exists>e. get_all_products X pp d = Inl e)
         \<longleftrightarrow> (\<exists>dt. get_all_products X pp d = Inl (HTTPException 404 dt)))
      \<and> (1 < PaginationParams.page pp
           \<and> offset_limit ((PaginationParams.page pp - 1) * PaginationParams.limit pp)
                 (PaginationParams.limit pp)
                 (order_by ProductDB.product_id (products_query X pp d)) = []
          \<longrightarrow> (\<exists>r. get_all_products X pp d = Inr r \<and> PaginatedResponse.items r = [])))"
  by (auto simp add: get_all_categories_cases get_all_products_cases)

theorem empty_page_not_found_witness:
  "PaginationParams_valid
     \<lparr>PaginationParams.page = 1, PaginationParams.limit = 10, CategorySearchParams.search = None\<rparr>
   \<and> get_all_categories example_externals
       \<lparr>PaginationParams.page = 1, PaginationParams.limit = 10, CategorySearchParams.search = None\<rparr>
       empty_database
     = Inl (HTTPException 404 CategoriesNotFound)
   \<and> PaginationParams_valid
     \<lparr>PaginationParams.page = 5, PaginationParams.limit = 10, CategorySearchParams.search = None\<rparr>
   \<and> get_all_categories example_externals
       \<lparr>PaginationParams.page = 5, PaginationParams.limit = 10, CategorySearchParams.search = None\<rparr>
       full_db
     = Inr \<lparr>items = ([] :: CategoryDB list), total = 3, page = 5, limit = 10, total_pages = 1,
            has_next = False, has_prev = True\<rparr>
   \<and> PaginationParams_valid
     \<lparr>PaginationParams.page = 1, PaginationParams.limit = 10,
      ProductSearchParams.search = Some ''Coffee'', ProductSearchParams.category_id = None,
      min_price = None, max_price = None\<rparr>
   \<and> get_all_products example_externals
       \<lparr>PaginationParams.page = 1, PaginationParams.limit = 10,
        ProductSearchParams.search = Some ''Coffee'', ProductSearchParams.category_id = None,
        min_price = None, max_price = None\<rparr>
       full_db
     = Inl (HTTPException 404 ProductsNotFound)
   \<and> PaginationParams_valid
     \<lparr>PaginationParams.page = 2, PaginationParams.limit = 10,
      ProductSearchParams.search = None, ProductSearchParams.category_id = None,
      min_price = None, max_price = None\<rparr>
   \<and> get_all_products example_externals
       \<lparr>PaginationParams.page = 2, PaginationParams.limit = 10,
        ProductSearchParams.search = None, ProductSearchParams.category_id = None,
        min_price = None, max_price = None\<rparr>
       full_db
     = Inr \<lparr>items = ([] :: ProductDB list), total = 2, page = 2, limit = 10, total_pages = 1,
            has_next = False, has_prev = True\<rparr>"
proof -
  let ?c1 = "\<lparr>PaginationParams.page = 1, PaginationParams.limit = 10,
              CategorySearchParams.search = None\<rparr>"
  let ?c5 = "\<lparr>PaginationParams.page = 5, PaginationParams.limit = 10,
              CategorySearchParams.search = None\<rparr>"
  let ?p1 = "\<lparr>PaginationParams.page = 1, PaginationParams.limit = 10,
      ProductSearchParams.search = Some ''Coffee'', ProductSearchParams.category_id = None,
      min_price = None, max_price = None\<rparr>"
  let ?p2 = "\<lparr>PaginationParams.page = 2, PaginationParams.limit = 10,
      ProductSearchParams.search = None, ProductSearchParams.category_id = None,
      min_price = None, max_price = None\<rparr>"
  have valid: "PaginationParams_valid ?c1" "PaginationParams_valid ?c5"
    "PaginationParams_valid ?p1" "PaginationParams_valid ?p2"
    by (simp_all add: PaginationParams_valid_def)
  have c1_rows: "offset_limit ((PaginationParams.page ?c1 - 1) * PaginationParams.limit ?c1)
      (PaginationParams.limit ?c1)
      (order_by CategoryDB.category_id (categories_query example_externals ?c1 empty_database)) = []"
    by code_simp
  have c5_rows: "offset_limit ((PaginationParams.page ?c5 - 1) * PaginationParams.limit ?c5)
      (PaginationParams.limit ?c5)
      (order_by CategoryDB.category_id (categories_query example_externals ?c5 full_db)) = []"
    by code_simp
  have p1_rows: "offset_limit ((PaginationParams.page ?p1 - 1) * PaginationParams.limit ?p1)
      (PaginationParams.limit ?p1)
      (order_by ProductDB.product_id (products_query example_externals ?p1 full_db)) = []"
    by code_simp
  have p2_rows: "offset_limit ((PaginationParams.page ?p2 - 1) * PaginationParams.limit ?p2)
      (PaginationParams.limit ?p2)
      (order_by ProductDB.product_id (products_query example_externals ?p2 full_db)) = []"
    by code_simp
  have c1: "\<exists>dt. get_all_categories example_externals ?c1 empty_database
              = Inl (HTTPException 404 dt)"
    using empty_page_not_found [where pc = ?c1 and X = example_externals and d = empty_database]
      valid(1) c1_rows by simp
  have c5: "\<exists>r. get_all_categories example_externals ?c5 full_db = Inr r
              \<and> PaginatedResponse.items r = []"
    using empty_page_not_found [where pc = ?c5 and X = example_externals and d = full_db]
      valid(2) c5_rows by simp
  have p1: "\<exists>dt. get_all_products example_externals ?p1 full_db = Inl (HTTPException 404 dt)"
    using empty_page_not_found [where pp = ?p1 and X = example_externals and d = full_db]
      valid(3) p1_rows by simp
  have p2: "\<exists>r. get_all_products example_externals ?p2 full_db = Inr r
              \<and> PaginatedResponse.items r = []"
    using empty_page_not_found [where pp = ?p2 and X = example_externals and d = full_db]
      valid(4) p2_rows by simp
  have runs:
    "get_all_categories example_externals ?c1 empty_database
       = Inl (HTTPException 404 CategoriesNotFound)"
    "get_all_categories example_externals ?c5 full_db
       = Inr \<lparr>items = ([] :: CategoryDB list), total = 3, page = 5, limit = 10, total_pages = 1,
              has_next = False, has_prev = True\<rparr>"
    "get_all_products example_externals ?p1 full_db = Inl (HTTPException 404 ProductsNotFound)"
    "get_all_products example_externals ?p2 full_db
       = Inr \<lparr>items = ([] :: ProductDB list), total = 2, page = 2, limit = 10, total_pages = 1,
              has_next = False, has_prev = True\<rparr>"
    by code_simp+
  from c1 c5 p1 p2 valid runs show ?thesis by simp
qed

subsection \<open>The profitability summary\<close>

text \<open>No step of the summary other than the division can raise \<open>ZeroDivisionError\<close>.\<close>

lemma parse_date_not_zero_division:
  "e \<noteq> ZeroDivisionError \<Longrightarrow> parse_date X s e \<noteq> Inl ZeroDivisionError"
  by (simp add: parse_date_def split: option.splits)

lemma profitability_date_filters_not_zero_division:
  "profitability_date_filters X sd ed q \<noteq> Inl ZeroDivisionError"
  by (auto simp add: profitability_date_filters_def and_then_def parse_date_def
      split: option.splits sum.splits)

lemma top_profitable_products_list_not_zero_division:
  "top_profitable_products_list ps \<noteq> Inl ZeroDivisionError"
  by (induction ps rule: top_profitable_products_list.induct)
     (auto simp add: and_then_def MostProfitableProduct_model_def split: option.splits sum.splits)

lemma ProfitabilitySummary_model_not_zero_division:
  "ProfitabilitySummary_model n r c g m t \<noteq> Inl ZeroDivisionError"
  by (simp add: ProfitabilitySummary_model_def)

text \<open>The division of the margin is reached with a positive divisor only.\<close>

lemma margin_not_zero_division:
  "(if (0::py_float) < r then and_then (truediv g r) (\<lambda>x. Inr (x * 100)) else Inr 0)
     \<noteq> Inl ZeroDivisionError"
  by (simp add: truediv_def and_then_def)

lemma and_then_not_zero_division:
  assumes "r \<noteq> Inl ZeroDivisionError" and "\<And>x. f x \<noteq> Inl ZeroDivisionError"
  shows "and_then r f \<noteq> Inl ZeroDivisionError"
  using assms by (cases r) (simp_all add: and_then_def)

lemma get_profitability_summary_not_zero_division:
  "get_profitability_summary X sd ed d \<noteq> Inl ZeroDivisionError"
  unfolding get_profitability_summary_def profitability_summary_query_def Let_def
  apply (rule and_then_not_zero_division)
   apply (rule profitability_date_filters_not_zero_division)
  subgoal for q
    apply (cases "int (length q) = 0")
     apply (simp add: ProfitabilitySummary_model_not_zero_division)
    apply (simp only: if_False)
    apply (rule and_then_not_zero_division)
     apply (rule margin_not_zero_division)
    apply (rule and_then_not_zero_division)
     apply (rule top_profitable_products_list_not_zero_division)
    apply (rule ProfitabilitySummary_model_not_zero_division)
    done
  done

lemma get_profitability_summary_empty:
  assumes "profitability_summary_query X sd ed d = Inr []"
  shows "get_profitability_summary X sd ed d
           = Inr \<lparr>total_sales = 0, total_revenue = 0, total_cogs = 0, total_gross_profit = 0,
                  average_profit_margin = 0, top_profitable_products = None\<rparr>"
  using assms
  by (simp add: get_profitability_summary_def and_then_def ProfitabilitySummary_model_def)

text \<open>
  C8. When the date range of a profitability summary matches no row of the view, the
  summary has \<open>total_sales = 0\<close> and 0 for the revenue, the cost, the gross profit and the
  margin. On no input does the summary end in a division by zero: the margin is divided
  only when the revenue is positive.
\<close>

theorem profitability_summary_no_rows:
  "(profitability_summary_query X sd ed d = Inr [] \<longrightarrow>
      get_profitability_summary X sd ed d
        = Inr \<lparr>total_sales = 0, total_revenue = 0, total_cogs = 0, total_gross_profit = 0,
               average_profit_margin = 0, top_profitable_products = None\<rparr>)
   \<and> get_profitability_summary X sd ed d \<noteq> Inl ZeroDivisionError"
  using get_profitability_summary_empty [of X sd ed d]
    get_profitability_summary_not_zero_division [of X sd ed d]
  by blast

theorem profitability_summary_no_rows_witness:
  "profitability_summary_query example_externals (Some ''2024-01-02'') None full_db = Inr []
   \<and> get_profitability_summary example_externals (Some ''2024-01-02'') None full_db
       = Inr \<lparr>total_sales = 0, total_revenue = 0, total_cogs = 0, total_gross_profit = 0,
              average_profit_margin = 0, top_profitable_products = None\<rparr>
   \<and> get_profitability_summary example_externals None None full_db
       = Inr \<lparr>total_sales = 2, total_revenue = 40, total_cogs = 20, total_gross_profit = 20,
              average_profit_margin = 50,
              top_profitable_products =
                Some [\<lparr>MostProfitableProduct.name = ''Tea'', total_profit = 14\<rparr>,
                      \<lparr>MostProfitableProduct.name = ''Tea'', total_profit = 6\<rparr>]\<rparr>"
proof -
  have none: "profitability_summary_query example_externals (Some ''2024-01-02'') None full_db
                = Inr []"
    by code_simp
  have all: "get_profitability_summary example_externals None None full_db
       = Inr \<lparr>total_sales = 2, total_revenue = 40, total_cogs = 20, total_gross_profit = 20,
              average_profit_margin = 50,
              top_profitable_products =
                Some [\<lparr>MostProfitableProduct.name = ''Tea'', total_profit = 14\<rparr>,
                      \<lparr>MostProfitableProduct.name = ''Tea'', total_profit = 6\<rparr>]\<rparr>"
    by code_simp
  from profitability_summary_no_rows
         [of example_externals "Some ''2024-01-02''" None full_db] none
  have "get_profitability_summary example_externals (Some ''2024-01-02'') None full_db
       = Inr \<lparr>total_sales = 0, total_revenue = 0, total_cogs = 0, total_gross_profit = 0,
              average_profit_margin = 0, top_profitable_products = None\<rparr>"
    by blast
  with none all show ?thesis by simp
qed

end
